theory Spec2Isabelle
  imports Complex_Main
begin

section \<open>Numbers and vectors\<close>

text \<open>
  The simulation core of the game lives in \<^verbatim>\<open>src/js/main.js\<close> and in the
  \<^verbatim>\<open>EnvironmentManager\<close> class. JavaScript numbers are modelled as real numbers with exact
  arithmetic; health, damage and score only ever hold integers and are modelled as \<open>int\<close>.
  \<^verbatim>\<open>THREE.Vector3\<close> is a triple of numbers; the operations below are the ones of the
  library that the simulation calls (\<^verbatim>\<open>add\<close>, \<^verbatim>\<open>subVectors\<close>, \<^verbatim>\<open>multiplyScalar\<close>,
  \<^verbatim>\<open>length\<close>, \<^verbatim>\<open>distanceTo\<close>, \<^verbatim>\<open>normalize\<close>, \<^verbatim>\<open>lerp\<close>).
\<close>

datatype vec3 = Vector3 (vx: real) (vy: real) (vz: real)

definition add_v :: "vec3 \<Rightarrow> vec3 \<Rightarrow> vec3" where
  "add_v a b = Vector3 (vx a + vx b) (vy a + vy b) (vz a + vz b)"

definition subVectors :: "vec3 \<Rightarrow> vec3 \<Rightarrow> vec3" where
  "subVectors a b = Vector3 (vx a - vx b) (vy a - vy b) (vz a - vz b)"

definition multiplyScalar :: "vec3 \<Rightarrow> real \<Rightarrow> vec3" where
  "multiplyScalar a k = Vector3 (vx a * k) (vy a * k) (vz a * k)"

definition length_v :: "vec3 \<Rightarrow> real" where
  "length_v a = sqrt (vx a * vx a + vy a * vy a + vz a * vz a)"

definition distanceTo :: "vec3 \<Rightarrow> vec3 \<Rightarrow> real" where
  "distanceTo a b =
     (let dx = vx a - vx b; dy = vy a - vy b; dz = vz a - vz b
      in sqrt (dx * dx + dy * dy + dz * dz))"

text \<open>\<^verbatim>\<open>normalize()\<close> is \<^verbatim>\<open>divideScalar(length() || 1)\<close>: the zero vector stays zero.\<close>

definition normalize_v :: "vec3 \<Rightarrow> vec3" where
  "normalize_v a = multiplyScalar a (1 / (if length_v a = 0 then 1 else length_v a))"

definition lerp_v :: "vec3 \<Rightarrow> vec3 \<Rightarrow> real \<Rightarrow> vec3" where
  "lerp_v a v alpha =
     Vector3 (vx a + (vx v - vx a) * alpha) (vy a + (vy v - vy a) * alpha)
       (vz a + (vz v - vz a) * alpha)"

text \<open>
  \<^verbatim>\<open>new THREE.Vector3(0, 0, -1).applyQuaternion(xwing.quaternion)\<close>: the object's
  quaternion follows its Euler rotation (order XYZ), so the rotated unit vector is the
  negated third column of the rotation matrix of the Euler angles.
\<close>

definition forwardVector :: "vec3 \<Rightarrow> vec3" where
  "forwardVector r =
     Vector3 (- sin (vy r)) (sin (vx r) * cos (vy r)) (- (cos (vx r) * cos (vy r)))"

text \<open>\<^verbatim>\<open>Array.prototype.splice(i, 1)\<close>: removes the element at index \<open>i\<close>, if there is one.\<close>

definition splice :: "nat \<Rightarrow> 'a list \<Rightarrow> 'a list" where
  "splice i xs = take i xs @ drop (Suc i) xs"


section \<open>The data model\<close>

text \<open>
  The fields of \<^verbatim>\<open>shipState\<close> that are never assigned after initialisation are constants.
\<close>

definition maxSpeed :: real where "maxSpeed = 1.0"
definition drag :: real where "drag = 0.98"
definition speedIncrement :: real where "speedIncrement = 0.01"
definition maxForwardSpeed :: real where "maxForwardSpeed = 1.5"
definition maxReverseSpeed :: real where "maxReverseSpeed = - 0.3"
definition barrelRoll_speed :: real where "barrelRoll_speed = 0.05"
definition barrelRoll_duration :: real where "barrelRoll_duration = pi * 2"
definition collisionRadius :: real where "collisionRadius = 4"
definition shootCooldown :: real where "shootCooldown = 0.25"
definition laserSpeed :: real where "laserSpeed = 500.0"
definition laserRange :: real where "laserRange = 200.0"
definition laserDamage :: int where "laserDamage = 25"

record barrelRoll_rec =
  active :: bool
  direction :: int
  progress :: real

record shipState_rec =
  velocity :: vec3
  rotation :: vec3
  position :: vec3
  currentSpeed :: real
  barrelRoll :: barrelRoll_rec
  invulnerable :: bool
  health :: int
  lastShotTime :: real

record gameState_rec =
  isGameOver :: bool
  score :: int

text \<open>
  The X-Wing mesh: its position and Euler rotation, its visibility, and the position and
  rotation its world matrix was last computed from (the renderer refreshes
  \<^verbatim>\<open>matrixWorld\<close> when it draws a frame).
\<close>

record xwing_rec =
  position :: vec3
  rotation :: vec3
  visible :: bool
  matrixWorld_position :: vec3
  matrixWorld_rotation :: vec3

text \<open>An entry of \<^verbatim>\<open>lasers\<close>; \<open>position\<close> is \<^verbatim>\<open>laser.mesh.position\<close>.\<close>

record laser =
  position :: vec3
  velocity :: vec3
  startPosition :: vec3
  distance :: real
  maxDistance :: real
  damage :: int
  isEnemy :: bool

text \<open>
  An entry of \<^verbatim>\<open>explosions\<close>. The particle buffers (50 positions, velocities and colours
  drawn from \<^verbatim>\<open>Math.random\<close>) only feed the renderer and are left out; the 250 draws are
  counted.
\<close>

record explosion =
  position :: vec3
  color :: nat
  age :: real
  lifetime :: real
  size :: real
  originalSize :: real
  opacity :: real

text \<open>
  A TIE fighter, an entry of \<^verbatim>\<open>targets\<close>. \<^verbatim>\<open>target.position\<close> is the very vector
  \<^verbatim>\<open>target.mesh.position\<close>; \<open>rotation\<close> holds the per-tick spin rates (the mesh's own
  Euler angles only feed the renderer and are left out).
\<close>

record target =
  position :: vec3
  radius :: real
  health :: int
  velocity :: vec3
  rotation :: vec3

text \<open>
  Meshes of the environment are identified by a number; \<open>meshPosition\<close> of the
  environment manager holds the position vector of each mesh. An asteroid reads its
  position through its mesh. A collision object keeps a reference to a position vector
  (\<open>position\<close> names the mesh whose vector it is), so moving a mesh moves every collision
  object that refers to it.
\<close>

record planet =
  mesh :: nat
  radius :: real
  rotationSpeed :: real

record asteroid =
  mesh :: nat
  radius :: real
  velocity :: vec3

record collisionObject =
  mesh :: nat
  position :: nat
  radius :: real
  type :: string

record environmentManager_rec =
  planets :: "planet list"
  asteroids :: "asteroid list"
  collisionObjects :: "collisionObject list"
  targets :: "target list"
  explosions :: "explosion list"
  meshPosition :: "nat \<Rightarrow> vec3"

text \<open>
  The whole mutable state of a session: the globals of \<^verbatim>\<open>main.js\<close>, the environment
  manager, the stream of values \<^verbatim>\<open>Math.random()\<close> will return with the number of draws
  made so far, and the number of pending one-second \<^verbatim>\<open>setTimeout\<close> callbacks that clear
  \<^verbatim>\<open>shipState.invulnerable\<close>. The camera, the starfield, the speed and score read-outs and
  the fade and shake timers of the end screen are rendering only and are left out.
\<close>

record world =
  shipState :: shipState_rec
  gameState :: gameState_rec
  keys :: "string \<Rightarrow> bool"
  xwing :: xwing_rec
  lasers :: "laser list"
  explosions :: "explosion list"
  targets :: "target list"
  gameOverScreen :: bool
  gameOverMessage :: string
  environmentManager :: environmentManager_rec
  random :: "nat \<Rightarrow> real"
  randomCalls :: nat
  graceTimers :: nat


section \<open>Explosions\<close>

definition Math_random :: "world \<Rightarrow> real \<times> world" where
  "Math_random s = (random s (randomCalls s), s\<lparr>randomCalls := Suc (randomCalls s)\<rparr>)"

definition newExplosion :: "vec3 \<Rightarrow> real \<Rightarrow> nat \<Rightarrow> explosion" where
  "newExplosion p sz c =
     \<lparr>explosion.position = p, color = c, age = 0, lifetime = 1, size = sz,
      originalSize = sz, opacity = 1\<rparr>"

text \<open>\<^verbatim>\<open>createExplosionEffect\<close> of \<^verbatim>\<open>main.js\<close>: five draws for each of 50 particles.\<close>

definition createExplosionEffect :: "vec3 \<Rightarrow> real \<Rightarrow> nat \<Rightarrow> world \<Rightarrow> world" where
  "createExplosionEffect p sz c s =
     s\<lparr>randomCalls := randomCalls s + 250,
       world.explosions := world.explosions s @ [newExplosion p sz c]\<rparr>"

text \<open>\<^verbatim>\<open>EnvironmentManager.createExplosionEffect\<close>: the same, on the manager's own list.\<close>

definition env_createExplosionEffect :: "vec3 \<Rightarrow> real \<Rightarrow> nat \<Rightarrow> world \<Rightarrow> world" where
  "env_createExplosionEffect p sz c s =
     s\<lparr>randomCalls := randomCalls s + 250,
       environmentManager := (environmentManager s)
         \<lparr>environmentManager_rec.explosions :=
            environmentManager_rec.explosions (environmentManager s) @ [newExplosion p sz c]\<rparr>\<rparr>"

definition updateExplosion :: "real \<Rightarrow> explosion \<Rightarrow> explosion" where
  "updateExplosion deltaTime e =
     (let a = age e + deltaTime; pr = a / lifetime e
      in e\<lparr>age := a, opacity := 1 - pr, size := originalSize e * (1 - pr * 0.5)\<rparr>)"

text \<open>
  The loop of \<^verbatim>\<open>updateExplosions\<close> ages every burst and removes the ones older than their
  lifetime; the others keep their order.
\<close>

definition updateExplosions_list :: "real \<Rightarrow> explosion list \<Rightarrow> explosion list" where
  "updateExplosions_list deltaTime es =
     map (updateExplosion deltaTime) (filter (\<lambda>e. \<not> age e + deltaTime > lifetime e) es)"

definition updateExplosions :: "real \<Rightarrow> world \<Rightarrow> world" where
  "updateExplosions deltaTime s =
     s\<lparr>world.explosions := updateExplosions_list deltaTime (world.explosions s)\<rparr>"

definition env_updateExplosions :: "real \<Rightarrow> world \<Rightarrow> world" where
  "env_updateExplosions deltaTime s =
     s\<lparr>environmentManager := (environmentManager s)
         \<lparr>environmentManager_rec.explosions :=
            updateExplosions_list deltaTime
              (environmentManager_rec.explosions (environmentManager s))\<rparr>\<rparr>"


section \<open>Firing\<close>

text \<open>
  \<^verbatim>\<open>fireLaser\<close>; \<open>currentTime\<close> is the reading of \<^verbatim>\<open>clock.getElapsedTime()\<close>. The nose is
  the point \<open>(0, 0, -3)\<close> of the ship taken through the world matrix.
\<close>

definition nosePosition :: "xwing_rec \<Rightarrow> vec3" where
  "nosePosition xw =
     add_v (matrixWorld_position xw) (multiplyScalar (forwardVector (matrixWorld_rotation xw)) 3)"

definition fireLaser :: "real \<Rightarrow> world \<Rightarrow> world" where
  "fireLaser currentTime s =
     (if currentTime - lastShotTime (shipState s) < shootCooldown then s
      else
        (let forwardDir = normalize_v (forwardVector (xwing_rec.rotation (xwing s)))
         in s\<lparr>shipState := (shipState s)\<lparr>lastShotTime := currentTime\<rparr>,
              lasers := lasers s @
                [\<lparr>laser.position = nosePosition (xwing s),
                  velocity = multiplyScalar forwardDir laserSpeed,
                  startPosition = nosePosition (xwing s),
                  distance = 0,
                  maxDistance = laserRange,
                  damage = laserDamage,
                  isEnemy = False\<rparr>]\<rparr>))"

text \<open>\<^verbatim>\<open>createEnemyLaser(target)\<close>: a bolt from the fighter towards the ship.\<close>

definition createEnemyLaser :: "target \<Rightarrow> world \<Rightarrow> world" where
  "createEnemyLaser tg s =
     (let dir = normalize_v (subVectors (shipState_rec.position (shipState s)) (target.position tg))
      in s\<lparr>lasers := lasers s @
                [\<lparr>laser.position = target.position tg,
                  velocity = multiplyScalar dir 1.5,
                  startPosition = target.position tg,
                  distance = 0,
                  maxDistance = 5,
                  damage = 10,
                  isEnemy = True\<rparr>]\<rparr>)"

section \<open>Projectiles\<close>

text \<open>\<^verbatim>\<open>destroyTarget(targetIndex)\<close> and \<^verbatim>\<open>destroyAsteroid(asteroidIndex)\<close> of the manager.\<close>

definition destroyTarget :: "nat \<Rightarrow> world \<Rightarrow> world" where
  "destroyTarget targetIndex s =
     (let env = environmentManager s
      in if targetIndex < length (environmentManager_rec.targets env)
         then s\<lparr>environmentManager := env
                \<lparr>environmentManager_rec.targets :=
                   splice targetIndex (environmentManager_rec.targets env)\<rparr>\<rparr>
         else s)"

text \<open>\<^verbatim>\<open>findIndex\<close>: the first index whose element satisfies the test.\<close>

fun findIndex :: "('a \<Rightarrow> bool) \<Rightarrow> 'a list \<Rightarrow> nat option" where
  "findIndex P [] = None"
| "findIndex P (a # as) =
     (if P a then Some 0 else map_option Suc (findIndex P as))"

definition destroyAsteroid :: "nat \<Rightarrow> world \<Rightarrow> world" where
  "destroyAsteroid asteroidIndex s =
     (let env = environmentManager s
      in if asteroidIndex < length (asteroids env)
         then
           (let a = asteroids env ! asteroidIndex;
                env1 = env\<lparr>asteroids := splice asteroidIndex (asteroids env)\<rparr>;
                env2 =
                  (case findIndex (\<lambda>obj. collisionObject.mesh obj = asteroid.mesh a)
                          (collisionObjects env1) of
                     None \<Rightarrow> env1
                   | Some collisionIndex \<Rightarrow>
                       env1\<lparr>collisionObjects := splice collisionIndex (collisionObjects env1)\<rparr>)
            in s\<lparr>environmentManager := env2\<rparr>)
         else s)"

text \<open>
  The two inner loops of \<^verbatim>\<open>updateLasers\<close> search for the entity the bolt is inside of:
  the fighters from the last index down, the asteroids from the first index up.
\<close>

fun targetHit :: "vec3 \<Rightarrow> target list \<Rightarrow> nat \<Rightarrow> nat option" where
  "targetHit p ts 0 = None"
| "targetHit p ts (Suc j) =
     (if distanceTo p (target.position (ts ! j)) < target.radius (ts ! j) then Some j
      else targetHit p ts j)"

fun asteroidHit :: "vec3 \<Rightarrow> (nat \<Rightarrow> vec3) \<Rightarrow> asteroid list \<Rightarrow> nat \<Rightarrow> nat option" where
  "asteroidHit p mp [] j = None"
| "asteroidHit p mp (a # as) j =
     (if distanceTo p (mp (asteroid.mesh a)) < asteroid.radius a then Some j
      else asteroidHit p mp as (Suc j))"

text \<open>
  The fighter loop for the bolt \<open>l\<close> at index \<open>i\<close>: damage, a small burst, removal of
  \<^verbatim>\<open>lasers[i]\<close>, and on a kill a larger burst, removal of the fighter and 100 points.
\<close>

definition checkTargets :: "laser \<Rightarrow> nat \<Rightarrow> world \<Rightarrow> world" where
  "checkTargets l i s =
     (let ts = environmentManager_rec.targets (environmentManager s)
      in case targetHit (laser.position l) ts (length ts) of
           None \<Rightarrow> s
         | Some j \<Rightarrow>
             (let tg = (ts ! j)\<lparr>target.health := target.health (ts ! j) - damage l\<rparr>;
                  s1 = s\<lparr>environmentManager := (environmentManager s)
                          \<lparr>environmentManager_rec.targets := ts[j := tg]\<rparr>\<rparr>;
                  s2 = env_createExplosionEffect (laser.position l) 0.5 0xff0000 s1;
                  s3 = s2\<lparr>lasers := splice i (lasers s2)\<rparr>
              in if target.health tg \<le> 0
                 then
                   (let s4 = env_createExplosionEffect (target.position tg) 2 0xffaa00 s3;
                        s5 = destroyTarget j s4
                    in s5\<lparr>gameState := (gameState s5)\<lparr>score := score (gameState s5) + 100\<rparr>\<rparr>)
                 else s3))"

text \<open>
  The asteroid loop for the same bolt: a small burst, removal of \<^verbatim>\<open>lasers[i]\<close>, and with
  probability one quarter the asteroid is destroyed for 25 points.
\<close>

definition checkAsteroids :: "laser \<Rightarrow> nat \<Rightarrow> world \<Rightarrow> world" where
  "checkAsteroids l i s =
     (let env = environmentManager s
      in case asteroidHit (laser.position l) (meshPosition env) (asteroids env) 0 of
           None \<Rightarrow> s
         | Some j \<Rightarrow>
             (let a = asteroids env ! j;
                  s1 = env_createExplosionEffect (laser.position l) 0.5 0xaaaaaa s;
                  s2 = s1\<lparr>lasers := splice i (lasers s1)\<rparr>;
                  (r, s3) = Math_random s2
              in if r < 0.25
                 then
                   (let s4 = env_createExplosionEffect (meshPosition env (asteroid.mesh a))
                               (asteroid.radius a) 0xaaaaaa s3;
                        s5 = destroyAsteroid j s4
                    in s5\<lparr>gameState := (gameState s5)\<lparr>score := score (gameState s5) + 25\<rparr>\<rparr>)
                 else s3))"

text \<open>
  One iteration of the outer loop of \<^verbatim>\<open>updateLasers\<close>, for index \<open>i\<close>: the bolt moves, is
  removed when it has travelled its range (and the iteration ends there), and otherwise
  goes through the fighter loop and then the asteroid loop. An iteration removes
  elements at index \<open>i\<close> only, so the loop never reads past the end of the array
  (lemma \<open>updateLasers_body_length\<close>); the model leaves the state alone there.
\<close>

definition moveLaser :: "real \<Rightarrow> laser \<Rightarrow> laser" where
  "moveLaser deltaTime l =
     l\<lparr>laser.position := add_v (laser.position l) (multiplyScalar (laser.velocity l) deltaTime)\<rparr>"

definition distanceTraveled :: "laser \<Rightarrow> real" where
  "distanceTraveled l = distanceTo (laser.position l) (startPosition l)"

definition updateLasers_body :: "real \<Rightarrow> nat \<Rightarrow> world \<Rightarrow> world" where
  "updateLasers_body deltaTime i s =
     (if i < length (lasers s)
      then
        (let l = moveLaser deltaTime (lasers s ! i);
             s1 = s\<lparr>lasers := (lasers s)[i := l]\<rparr>
         in if distanceTraveled l \<ge> maxDistance l
            then s1\<lparr>lasers := splice i (lasers s1)\<rparr>
            else checkAsteroids l i (checkTargets l i s1))
      else s)"

text \<open>The outer loop runs \<open>i\<close> from \<^verbatim>\<open>lasers.length - 1\<close> down to 0.\<close>

fun updateLasers_loop :: "real \<Rightarrow> nat \<Rightarrow> world \<Rightarrow> world" where
  "updateLasers_loop deltaTime 0 s = s"
| "updateLasers_loop deltaTime (Suc i) s =
     updateLasers_loop deltaTime i (updateLasers_body deltaTime i s)"

definition updateLasers :: "real \<Rightarrow> world \<Rightarrow> world" where
  "updateLasers deltaTime s = updateLasers_loop deltaTime (length (lasers s)) s"

section \<open>Game over, collisions and the barrel roll\<close>

text \<open>
  \<^verbatim>\<open>gameOver(message)\<close>: marks the session as over; with the end screen built (as
  \<^verbatim>\<open>initUI\<close> does), it shows the message, spawns a large burst at the ship and hides
  the ship.
\<close>

definition gameOver :: "string \<Rightarrow> world \<Rightarrow> world" where
  "gameOver message s =
     (let s1 = s\<lparr>gameState := (gameState s)\<lparr>isGameOver := True\<rparr>\<rparr>
      in if gameOverScreen s1
         then
           (let s2 = s1\<lparr>gameOverMessage := message\<rparr>;
                s3 = createExplosionEffect (shipState_rec.position (shipState s2)) 10 0xff5500 s2
            in s3\<lparr>xwing := (xwing s3)\<lparr>visible := False\<rparr>\<rparr>)
         else s1)"

text \<open>\<^verbatim>\<open>handleCollision(object)\<close>: a switch on the object's type with no default case.\<close>

definition handleCollision :: "collisionObject \<Rightarrow> world \<Rightarrow> world" where
  "handleCollision object s =
     (if type object = ''asteroid''
      then gameOver ''Your X-Wing was destroyed by an asteroid!''
             (s\<lparr>shipState := (shipState s)\<lparr>shipState_rec.health := 0\<rparr>\<rparr>)
      else if type object = ''planet''
      then gameOver ''Your X-Wing crashed into a planet!''
             (s\<lparr>shipState := (shipState s)\<lparr>shipState_rec.health := 0\<rparr>\<rparr>)
      else if type object = ''deathstar''
      then gameOver ''Mission Complete! You've reached the Death Star!'' s
      else s)"

text \<open>The loop of \<^verbatim>\<open>checkCollisions\<close> stops at the first object the ship overlaps.\<close>

fun firstCollision ::
  "vec3 \<Rightarrow> (nat \<Rightarrow> vec3) \<Rightarrow> collisionObject list \<Rightarrow> collisionObject option" where
  "firstCollision shipPosition mp [] = None"
| "firstCollision shipPosition mp (obj # objs) =
     (if distanceTo shipPosition (mp (collisionObject.position obj))
           < collisionRadius + collisionObject.radius obj
      then Some obj
      else firstCollision shipPosition mp objs)"

definition checkCollisions :: "world \<Rightarrow> world" where
  "checkCollisions s =
     (if invulnerable (shipState s) then s
      else
        (case firstCollision (shipState_rec.position (shipState s))
                (meshPosition (environmentManager s))
                (collisionObjects (environmentManager s)) of
           None \<Rightarrow> s
         | Some obj \<Rightarrow> handleCollision obj s))"

definition startBarrelRoll :: "int \<Rightarrow> world \<Rightarrow> world" where
  "startBarrelRoll dir s =
     s\<lparr>shipState := (shipState s)
         \<lparr>barrelRoll := (barrelRoll (shipState s))\<lparr>active := True, direction := dir, progress := 0\<rparr>,
          invulnerable := True\<rparr>\<rparr>"

definition set_rotation_z :: "real \<Rightarrow> world \<Rightarrow> world" where
  "set_rotation_z r s =
     s\<lparr>xwing := (xwing s)
         \<lparr>xwing_rec.rotation :=
            Vector3 (vx (xwing_rec.rotation (xwing s))) (vy (xwing_rec.rotation (xwing s))) r\<rparr>\<rparr>"

definition updateBarrelRoll :: "real \<Rightarrow> world \<Rightarrow> world" where
  "updateBarrelRoll deltaTime s =
     (if active (barrelRoll (shipState s))
      then
        (let br = (barrelRoll (shipState s))
                    \<lparr>progress := progress (barrelRoll (shipState s)) + barrelRoll_speed\<rparr>;
             s1 = set_rotation_z (real_of_int (direction br) * progress br)
                    (s\<lparr>shipState := (shipState s)\<lparr>barrelRoll := br\<rparr>\<rparr>)
         in if progress br \<ge> barrelRoll_duration
            then
              set_rotation_z 0
                (s1\<lparr>shipState := (shipState s1)
                      \<lparr>barrelRoll := br\<lparr>active := False, progress := 0\<rparr>,
                       invulnerable := False\<rparr>\<rparr>)
            else s1)
      else s)"

text \<open>
  The callback of \<^verbatim>\<open>setTimeout(..., 1000)\<close> that an enemy hit registers: when one is
  pending and fires, it clears the flag.
\<close>

definition graceTimeout :: "world \<Rightarrow> world" where
  "graceTimeout s =
     (if graceTimers s > 0
      then s\<lparr>graceTimers := graceTimers s - 1,
             shipState := (shipState s)\<lparr>invulnerable := False\<rparr>\<rparr>
      else s)"


section \<open>The physics integrator\<close>

text \<open>
  The last loop of \<^verbatim>\<open>updateShipPhysics\<close> looks, from the last index down, for an enemy
  bolt within the ship's collision radius.
\<close>

fun enemyLaserHit :: "vec3 \<Rightarrow> laser list \<Rightarrow> nat \<Rightarrow> nat option" where
  "enemyLaserHit p ls 0 = None"
| "enemyLaserHit p ls (Suc i) =
     (if isEnemy (ls ! i) \<and> distanceTo (laser.position (ls ! i)) p < collisionRadius
      then Some i
      else enemyLaserHit p ls i)"

definition checkEnemyLasers :: "world \<Rightarrow> world" where
  "checkEnemyLasers s =
     (if invulnerable (shipState s) then s
      else
        (case enemyLaserHit (shipState_rec.position (shipState s)) (lasers s)
                (length (lasers s)) of
           None \<Rightarrow> s
         | Some i \<Rightarrow>
             (let l = lasers s ! i;
                  s1 = s\<lparr>shipState := (shipState s)
                          \<lparr>shipState_rec.health := shipState_rec.health (shipState s) - damage l\<rparr>\<rparr>;
                  s2 = s1\<lparr>lasers := splice i (lasers s1)\<rparr>;
                  s3 = createExplosionEffect (shipState_rec.position (shipState s2)) 1 0xff0000 s2;
                  s4 = s3\<lparr>shipState := (shipState s3)\<lparr>invulnerable := True\<rparr>,
                          graceTimers := Suc (graceTimers s3)\<rparr>
              in if shipState_rec.health (shipState s4) \<le> 0
                 then gameOver ''Ship destroyed by enemy fire!'' s4
                 else s4)))"

text \<open>The speed control at the head of \<^verbatim>\<open>updateShipPhysics\<close>.\<close>

definition updateSpeed :: "(string \<Rightarrow> bool) \<Rightarrow> real \<Rightarrow> real" where
  "updateSpeed k v =
     (let v1 =
        (if k ''w'' \<or> k ''ArrowUp'' then min (v + speedIncrement) maxForwardSpeed
         else if k ''s'' \<or> k ''ArrowDown'' then max (v - speedIncrement) maxReverseSpeed
         else v)
      in if \<not> k ''w'' \<and> \<not> k ''s'' \<and> \<not> k ''ArrowUp'' \<and> \<not> k ''ArrowDown''
         then (if \<bar>v1\<bar> < 0.01 then 0 else v1 * 0.998)
         else v1)"

text \<open>
  The motion part of \<^verbatim>\<open>updateShipPhysics\<close>: speed, yaw, vertical velocity, horizontal
  velocity from the heading, the position, and the ship mesh's position, yaw, tilt and
  pitch.
\<close>

definition moveShip :: "world \<Rightarrow> world" where
  "moveShip s =
     (let k = keys s; sh = shipState s; xw = xwing s;
          fw = forwardVector (xwing_rec.rotation xw);
          horizontalForward = normalize_v (Vector3 (vx fw) 0 (vz fw));
          speed = updateSpeed k (currentSpeed sh);
          rolling = active (barrelRoll sh);
          ry0 = vy (shipState_rec.rotation sh);
          ry1 = (if \<not> rolling \<and> (k ''a'' \<or> k ''ArrowLeft'') then ry0 + 0.02 else ry0);
          ry2 = (if \<not> rolling \<and> (k ''d'' \<or> k ''ArrowRight'') then ry1 - 0.02 else ry1);
          vy0 = vy (shipState_rec.velocity sh);
          vy1 = (if k '' '' then vy0 + 0.01 else vy0 - 0.002);
          vy2 = vy1 * drag;
          vy3 = (if \<bar>vy2\<bar> > maxSpeed * 0.5 then sgn vy2 * maxSpeed * 0.5 else vy2);
          vel = Vector3 (vx horizontalForward * speed) vy3 (vz horizontalForward * speed);
          pos = add_v (shipState_rec.position sh) vel;
          rz0 = vz (xwing_rec.rotation xw);
          rz1 = (if rolling then rz0
                 else if k ''a'' \<or> k ''ArrowLeft'' then min (rz0 + 0.01) 0.5
                 else if k ''d'' \<or> k ''ArrowRight'' then max (rz0 - 0.01) (- 0.5)
                 else rz0 * 0.95);
          rx1 = (if rolling then vx (xwing_rec.rotation xw) else - (speed * 0.3))
      in s\<lparr>shipState := sh
             \<lparr>shipState_rec.velocity := vel,
              shipState_rec.rotation :=
                Vector3 (vx (shipState_rec.rotation sh)) ry2 (vz (shipState_rec.rotation sh)),
              shipState_rec.position := pos,
              currentSpeed := speed\<rparr>,
           xwing := xw\<lparr>xwing_rec.position := pos, xwing_rec.rotation := Vector3 rx1 ry2 rz1\<rparr>\<rparr>)"

text \<open>
  \<^verbatim>\<open>updateShipPhysics\<close>: the motion, continuous fire while \<^verbatim>\<open>f\<close> is held, the barrel
  roll, the hazard check and the enemy-bolt check, in this order. \<open>currentTime\<close> is what
  \<^verbatim>\<open>clock.getElapsedTime()\<close> returns if \<^verbatim>\<open>fireLaser\<close> asks.
\<close>

definition updateShipPhysics :: "real \<Rightarrow> real \<Rightarrow> world \<Rightarrow> world" where
  "updateShipPhysics deltaTime currentTime s =
     (let s1 = moveShip s;
          s2 = (if keys s1 ''f'' then fireLaser currentTime s1 else s1);
          s3 = updateBarrelRoll deltaTime s2;
          s4 = checkCollisions s3
      in checkEnemyLasers s4)"

section \<open>Environment and enemy fighters\<close>

text \<open>
  One call of the \<^verbatim>\<open>forEach\<close> callback of \<^verbatim>\<open>updateEnvironment\<close>, for the asteroid at
  \<open>index\<close>: it drifts, the collision object at \<^verbatim>\<open>planets.length + index\<close> is pointed at
  its position vector, and an asteroid further than 500 from the field's centre is put
  back at a random place. When there is no collision object at that index the assignment
  throws a \<^verbatim>\<open>TypeError\<close>: the result is \<open>Inl\<close> of the state reached so far. (The spin of
  planets, asteroids and the Death Star only feeds the renderer and is left out.)
\<close>

definition moveAsteroid :: "nat \<Rightarrow> world \<Rightarrow> world + world" where
  "moveAsteroid index s =
     (let env = environmentManager s;
          a = asteroids env ! index;
          m = asteroid.mesh a;
          p = add_v (meshPosition env m) (asteroid.velocity a);
          env1 = env\<lparr>meshPosition := (meshPosition env)(m := p)\<rparr>;
          c = length (planets env) + index
      in if c < length (collisionObjects env1)
         then
           (let env2 = env1\<lparr>collisionObjects :=
                              (collisionObjects env1)
                                [c := (collisionObjects env1 ! c)\<lparr>collisionObject.position := m\<rparr>]\<rparr>;
                s2 = s\<lparr>environmentManager := env2\<rparr>
            in if distanceTo p (Vector3 0 0 (- 500)) > 500
               then
                 (let (r1, s3) = Math_random s2;
                      (r2, s4) = Math_random s3;
                      (r3, s5) = Math_random s4;
                      angle = r1 * pi * 2;
                      dist = r2 * 300;
                      q = Vector3 (cos angle * dist) ((r3 - 0.5) * 300) (- 500 + sin angle * dist)
                  in Inr (s5\<lparr>environmentManager := (environmentManager s5)
                              \<lparr>meshPosition := (meshPosition (environmentManager s5))(m := q)\<rparr>\<rparr>))
               else Inr s2)
         else Inl (s\<lparr>environmentManager := env1\<rparr>))"

fun moveAsteroids :: "nat list \<Rightarrow> world \<Rightarrow> world + world" where
  "moveAsteroids [] s = Inr s"
| "moveAsteroids (index # rest) s =
     (case moveAsteroid index s of
        Inl e \<Rightarrow> Inl e
      | Inr s1 \<Rightarrow> moveAsteroids rest s1)"

definition updateEnvironment :: "real \<Rightarrow> world \<Rightarrow> world + world" where
  "updateEnvironment deltaTime s =
     (case moveAsteroids [0 ..< length (asteroids (environmentManager s))] s of
        Inl e \<Rightarrow> Inl e
      | Inr s1 \<Rightarrow> Inr (env_updateExplosions deltaTime s1))"

text \<open>
  The steering of one fighter, the body shared by \<^verbatim>\<open>EnvironmentManager.updateEnemies\<close> and
  by \<^verbatim>\<open>updateEnemies\<close> of \<^verbatim>\<open>main.js\<close>: it moves by its velocity, within 200 of the ship
  its velocity is blended towards the ship with three random offsets, the velocity is
  capped at 0.2 and reflected at the bounds of the play volume. The result carries the
  distance to the ship measured after the move.
\<close>

definition steerTarget :: "real \<Rightarrow> vec3 \<Rightarrow> target \<Rightarrow> world \<Rightarrow> (target \<times> real) \<times> world" where
  "steerTarget deltaTime shipPosition tg s =
     (let p = add_v (target.position tg) (target.velocity tg);
          distanceToPlayer = distanceTo p shipPosition;
          (v1, s1) =
            (if distanceToPlayer < 200
             then
               (let toPlayer = multiplyScalar (normalize_v (subVectors shipPosition p))
                                 (0.15 * deltaTime * 60);
                    (r1, sa) = Math_random s;
                    (r2, sb) = Math_random sa;
                    (r3, sc) = Math_random sb;
                    toPlayer1 = Vector3 (vx toPlayer + (r1 - 0.5) * 0.05)
                                  (vy toPlayer + (r2 - 0.5) * 0.05)
                                  (vz toPlayer + (r3 - 0.5) * 0.05)
                in (lerp_v (target.velocity tg) toPlayer1 0.01, sc))
             else (target.velocity tg, s));
          v2 = (if length_v v1 > 0.2 then multiplyScalar (normalize_v v1) 0.2 else v1);
          v3 = Vector3 (if \<bar>vx p\<bar> > 500 then vx v2 * (- 1) else vx v2)
                 (if \<bar>vy p\<bar> > 300 then vy v2 * (- 1) else vy v2)
                 (if vz p < - 1500 \<or> vz p > 500 then vz v2 * (- 1) else vz v2)
      in ((tg\<lparr>target.position := p, target.velocity := v3\<rparr>, distanceToPlayer), s1))"

text \<open>\<^verbatim>\<open>EnvironmentManager.updateEnemies(deltaTime, shipState)\<close>, called by \<^verbatim>\<open>animate\<close>.\<close>

definition env_updateEnemy :: "real \<Rightarrow> nat \<Rightarrow> world \<Rightarrow> world" where
  "env_updateEnemy deltaTime i s =
     (let ts = environmentManager_rec.targets (environmentManager s);
          ((tg, d), s1) = steerTarget deltaTime (shipState_rec.position (shipState s)) (ts ! i) s
      in s1\<lparr>environmentManager := (environmentManager s1)
              \<lparr>environmentManager_rec.targets :=
                 (environmentManager_rec.targets (environmentManager s1))[i := tg]\<rparr>\<rparr>)"

definition env_updateEnemies :: "real \<Rightarrow> world \<Rightarrow> world" where
  "env_updateEnemies deltaTime s =
     fold (env_updateEnemy deltaTime)
       [0 ..< length (environmentManager_rec.targets (environmentManager s))] s"

text \<open>
  \<^verbatim>\<open>updateEnemies(deltaTime)\<close> of \<^verbatim>\<open>main.js\<close> works on the module's own \<^verbatim>\<open>targets\<close> array
  and, within 150 of the ship, fires with probability 0.005. Nothing calls it, and nothing
  fills that array.
\<close>

definition updateEnemy :: "real \<Rightarrow> nat \<Rightarrow> world \<Rightarrow> world" where
  "updateEnemy deltaTime i s =
     (let ((tg, d), s1) =
            steerTarget deltaTime (shipState_rec.position (shipState s)) (world.targets s ! i) s;
          s2 = s1\<lparr>world.targets := (world.targets s1)[i := tg]\<rparr>
      in if d < 150
         then (let (r, s3) = Math_random s2
               in if r < 0.005 then createEnemyLaser tg s3 else s3)
         else s2)"

definition updateEnemies :: "real \<Rightarrow> world \<Rightarrow> world" where
  "updateEnemies deltaTime s = fold (updateEnemy deltaTime) [0 ..< length (world.targets s)] s"

text \<open>
  \<^verbatim>\<open>createTieFighter(x, y, z)\<close> appends a fighter of radius 8 and health 50 to the
  manager's \<^verbatim>\<open>targets\<close>; its velocity and spin rates come from six random draws.
\<close>

definition createTieFighter :: "real \<Rightarrow> real \<Rightarrow> real \<Rightarrow> world \<Rightarrow> world" where
  "createTieFighter px py pz s =
     (let (r1, s1) = Math_random s;
          (r2, s2) = Math_random s1;
          (r3, s3) = Math_random s2;
          (r4, s4) = Math_random s3;
          (r5, s5) = Math_random s4;
          (r6, s6) = Math_random s5
      in s6\<lparr>environmentManager := (environmentManager s6)
              \<lparr>environmentManager_rec.targets :=
                 environmentManager_rec.targets (environmentManager s6) @
                   [\<lparr>target.position = Vector3 px py pz,
                     radius = 8,
                     health = 50,
                     velocity = Vector3 (r1 * 0.2 - 0.1) (r2 * 0.1 - 0.05) (r3 * 0.2 - 0.1),
                     rotation = Vector3 (r4 * 0.01) (r5 * 0.01) (r6 * 0.01)\<rparr>]\<rparr>\<rparr>)"


section \<open>The frame loop and the events of a session\<close>

text \<open>Drawing a frame refreshes the world matrix of the ship mesh.\<close>

definition render :: "world \<Rightarrow> world" where
  "render s =
     s\<lparr>xwing := (xwing s)
         \<lparr>matrixWorld_position := xwing_rec.position (xwing s),
          matrixWorld_rotation := xwing_rec.rotation (xwing s)\<rparr>\<rparr>"

text \<open>
  \<^verbatim>\<open>animate\<close>, one frame: \<open>deltaTime\<close> is the reading of \<^verbatim>\<open>clock.getDelta()\<close>. A frame that
  starts with the game over does nothing. An exception thrown by the environment update
  ends the frame where it is thrown (\<open>Inl\<close>).
\<close>

definition animate :: "real \<Rightarrow> real \<Rightarrow> world \<Rightarrow> world + world" where
  "animate deltaTime currentTime s =
     (if isGameOver (gameState s) then Inr s
      else
        (let s1 = updateShipPhysics deltaTime currentTime s
         in case updateEnvironment deltaTime s1 of
              Inl e \<Rightarrow> Inl e
            | Inr s2 \<Rightarrow>
                (let s3 = env_updateEnemies deltaTime s2;
                     s4 = updateLasers deltaTime s3;
                     s5 = updateExplosions deltaTime s4
                 in Inr (render s5))))"

text \<open>
  The events that change the state: key presses and releases (\<open>currentTime\<close> is the
  clock reading, used when the key fires), the touch buttons of the mobile controls, an
  animation frame, and the expiry of a pending grace timer.
\<close>

datatype event =
    Keydown string real
  | Keyup string
  | Touchstart string
  | Touchend string
  | TouchFire real
  | Frame real real
  | Timeout

definition keyNames :: "string list" where
  "keyNames = [''w'', ''a'', ''s'', ''d'', ''q'', ''e'', ''f'', ''ArrowUp'', ''ArrowDown'',
     ''ArrowLeft'', ''ArrowRight'', '' '']"

definition keydown :: "string \<Rightarrow> real \<Rightarrow> world \<Rightarrow> world" where
  "keydown key currentTime s =
     (let s1 = (if key \<in> set keyNames then s\<lparr>keys := (keys s)(key := True)\<rparr> else s);
          s2 = (if (key = ''q'' \<or> key = ''e'') \<and> \<not> active (barrelRoll (shipState s1))
                then startBarrelRoll (if key = ''e'' then 1 else - 1) s1
                else s1)
      in if key = ''f'' then fireLaser currentTime s2 else s2)"

definition keyup :: "string \<Rightarrow> world \<Rightarrow> world" where
  "keyup key s = (if key \<in> set keyNames then s\<lparr>keys := (keys s)(key := False)\<rparr> else s)"

fun step :: "event \<Rightarrow> world \<Rightarrow> world" where
  "step (Keydown key currentTime) s = keydown key currentTime s"
| "step (Keyup key) s = keyup key s"
| "step (Touchstart key) s = s\<lparr>keys := (keys s)(key := True)\<rparr>"
| "step (Touchend key) s = s\<lparr>keys := (keys s)(key := False)\<rparr>"
| "step (TouchFire currentTime) s = fireLaser currentTime s"
| "step (Frame deltaTime currentTime) s =
     (case animate deltaTime currentTime s of Inl e \<Rightarrow> e | Inr s1 \<Rightarrow> s1)"
| "step Timeout s = graceTimeout s"

definition run :: "event list \<Rightarrow> world \<Rightarrow> world" where
  "run evs s = fold step evs s"

section \<open>Example states\<close>

text \<open>
  A small session used to evaluate the functions on concrete inputs: the ship at the
  origin, one asteroid of radius 2 at distance 3, one fighter 100 ahead, nothing fired.
\<close>

definition exampleShip :: shipState_rec where
  "exampleShip =
     \<lparr>shipState_rec.velocity = Vector3 0 0 0,
      rotation = Vector3 0 0 0,
      position = Vector3 0 0 0,
      currentSpeed = 0,
      barrelRoll = \<lparr>active = False, direction = 1, progress = 0\<rparr>,
      invulnerable = False,
      health = 100,
      lastShotTime = 0\<rparr>"

definition exampleEnvironment :: environmentManager_rec where
  "exampleEnvironment =
     \<lparr>planets = [],
      asteroids = [\<lparr>asteroid.mesh = 0, radius = 2, velocity = Vector3 0 0 0\<rparr>],
      collisionObjects = [\<lparr>collisionObject.mesh = 0, position = 0, radius = 2, type = ''asteroid''\<rparr>],
      targets = [\<lparr>target.position = Vector3 0 0 (- 100), radius = 8, health = 50,
                  velocity = Vector3 0 0 0, rotation = Vector3 0 0 0\<rparr>],
      explosions = [],
      meshPosition = (\<lambda>m. Vector3 3 0 0)\<rparr>"

definition exampleWorld :: world where
  "exampleWorld =
     \<lparr>shipState = exampleShip,
      gameState = \<lparr>isGameOver = False, score = 0\<rparr>,
      keys = (\<lambda>k. False),
      xwing = \<lparr>xwing_rec.position = Vector3 0 0 0, rotation = Vector3 0 0 0, visible = True,
               matrixWorld_position = Vector3 0 0 0, matrixWorld_rotation = Vector3 0 0 0\<rparr>,
      lasers = [],
      explosions = [],
      targets = [],
      gameOverScreen = True,
      gameOverMessage = ''Your X-Wing has been destroyed!'',
      environmentManager = exampleEnvironment,
      random = (\<lambda>n. 0),
      randomCalls = 0,
      graceTimers = 0\<rparr>"

text \<open>
  An enemy bolt one unit in front of the ship, and the example session with that bolt in
  flight and the ship invulnerable.
\<close>

definition exampleEnemyLaser :: laser where
  "exampleEnemyLaser =
     \<lparr>laser.position = Vector3 0 0 (- 1),
      velocity = Vector3 0 0 1.5,
      startPosition = Vector3 0 0 (- 4),
      distance = 0,
      maxDistance = 5,
      damage = 10,
      isEnemy = True\<rparr>"

definition shieldedWorld :: world where
  "shieldedWorld =
     exampleWorld\<lparr>shipState := exampleShip\<lparr>invulnerable := True\<rparr>, lasers := [exampleEnemyLaser]\<rparr>"

text \<open>
  The example session with the asteroid far from the ship, and a fighter placed right on
  the ship.
\<close>

definition calmWorld :: world where
  "calmWorld =
     exampleWorld\<lparr>environmentManager := exampleEnvironment\<lparr>meshPosition := (\<lambda>m. Vector3 100 0 (- 500))\<rparr>\<rparr>"

definition exampleFighterAtShip :: target where
  "exampleFighterAtShip =
     \<lparr>target.position = Vector3 0 0 0, radius = 8, health = 50,
      velocity = Vector3 0 0 0, rotation = Vector3 0 0 0\<rparr>"

text \<open>
  Two player bolts in flight, fired a cooldown apart (125 units), the front one about to
  move inside both a fighter and an asteroid.
\<close>

definition exampleFrontShot :: laser where
  "exampleFrontShot =
     \<lparr>laser.position = Vector3 0 0 (- 145),
      velocity = Vector3 0 0 (- 500),
      startPosition = Vector3 0 0 (- 3),
      distance = 0,
      maxDistance = 200,
      damage = 25,
      isEnemy = False\<rparr>"

definition exampleRearShot :: laser where
  "exampleRearShot = exampleFrontShot\<lparr>laser.position := Vector3 0 0 (- 20)\<rparr>"

definition doubleHitWorld :: world where
  "doubleHitWorld =
     exampleWorld
       \<lparr>lasers := [exampleFrontShot, exampleRearShot],
        environmentManager := exampleEnvironment
          \<lparr>meshPosition := (\<lambda>m. Vector3 0 0 (- 151)),
           environmentManager_rec.targets :=
             [\<lparr>target.position = Vector3 0 0 (- 150), radius = 8, health = 50,
               velocity = Vector3 0 0 0, rotation = Vector3 0 0 0\<rparr>]\<rparr>\<rparr>"

text \<open>
  A fighter of health \<open>h\<close> 100 ahead of the ship that has just fired at the ship, with an
  asteroid next to it.
\<close>

definition exampleFighter :: "int \<Rightarrow> target" where
  "exampleFighter h =
     \<lparr>target.position = Vector3 0 0 (- 100), radius = 8, health = h,
      velocity = Vector3 0 0 0, rotation = Vector3 0 0 0\<rparr>"

definition friendlyFireWorld :: "int \<Rightarrow> world" where
  "friendlyFireWorld h =
     createEnemyLaser (exampleFighter h)
       (exampleWorld
          \<lparr>environmentManager := exampleEnvironment
             \<lparr>meshPosition := (\<lambda>m. Vector3 0 0 (- 99)),
              environmentManager_rec.targets := [exampleFighter h]\<rparr>\<rparr>)"

text \<open>The calm session with an enemy bolt one unit from the ship.\<close>

definition ambushWorld :: world where
  "ambushWorld = calmWorld\<lparr>lasers := [exampleEnemyLaser]\<rparr>"

text \<open>
  A player bolt just fired with range 200 and speed 500, and a fighter exactly 200 ahead
  of the bolt's start.
\<close>

definition exampleExpiringShot :: laser where
  "exampleExpiringShot =
     \<lparr>laser.position = Vector3 0 0 (- 3),
      velocity = Vector3 0 0 (- 500),
      startPosition = Vector3 0 0 (- 3),
      distance = 0,
      maxDistance = 200,
      damage = 25,
      isEnemy = False\<rparr>"

definition expiryWorld :: world where
  "expiryWorld =
     exampleWorld
       \<lparr>lasers := [exampleExpiringShot],
        environmentManager := exampleEnvironment
          \<lparr>environmentManager_rec.targets :=
             [\<lparr>target.position = Vector3 0 0 (- 203), radius = 8, health = 50,
               velocity = Vector3 0 0 0, rotation = Vector3 0 0 0\<rparr>]\<rparr>\<rparr>"

text \<open>
  The frame of the transition: the ship is about to touch an asteroid while a player bolt
  is five units short of a fighter 205 ahead.
\<close>

definition exampleShot :: laser where
  "exampleShot =
     \<lparr>laser.position = Vector3 0 0 (- 195),
      velocity = Vector3 0 0 (- 500),
      startPosition = Vector3 0 0 (- 3),
      distance = 0,
      maxDistance = 200,
      damage = 25,
      isEnemy = False\<rparr>"

definition transitionWorld :: world where
  "transitionWorld =
     exampleWorld
       \<lparr>lasers := [exampleShot],
        environmentManager := exampleEnvironment
          \<lparr>meshPosition := (\<lambda>m. Vector3 3 0 (- 4)),
           environmentManager_rec.targets :=
             [\<lparr>target.position = Vector3 0 0 (- 205), radius = 8, health = 50,
               velocity = Vector3 0 0 0, rotation = Vector3 0 0 0\<rparr>]\<rparr>\<rparr>"

section \<open>Predicates of the properties\<close>

definition speedInRange :: "world \<Rightarrow> bool" where
  "speedInRange s =
     (maxReverseSpeed \<le> currentSpeed (shipState s) \<and> currentSpeed (shipState s) \<le> maxForwardSpeed)"

definition withTargets :: "target list \<Rightarrow> world \<Rightarrow> world" where
  "withTargets ts s =
     s\<lparr>environmentManager := (environmentManager s)\<lparr>environmentManager_rec.targets := ts\<rparr>\<rparr>"

definition sameButEnvironment :: "world \<Rightarrow> world \<Rightarrow> bool" where
  "sameButEnvironment s r =
     (shipState r = shipState s \<and> gameState r = gameState s \<and> keys r = keys s \<and>
      xwing r = xwing s \<and> lasers r = lasers s \<and> world.explosions r = world.explosions s \<and>
      world.targets r = world.targets s \<and> graceTimers r = graceTimers s \<and>
      environmentManager_rec.targets (environmentManager r) =
        environmentManager_rec.targets (environmentManager s))"

definition sameButFighterMotion :: "world \<Rightarrow> world \<Rightarrow> bool" where
  "sameButFighterMotion s r =
     (shipState r = shipState s \<and> gameState r = gameState s \<and> keys r = keys s \<and>
      xwing r = xwing s \<and> lasers r = lasers s \<and> world.explosions r = world.explosions s \<and>
      graceTimers r = graceTimers s \<and>
      collisionObjects (environmentManager r) = collisionObjects (environmentManager s) \<and>
      asteroids (environmentManager r) = asteroids (environmentManager s) \<and>
      meshPosition (environmentManager r) = meshPosition (environmentManager s) \<and>
      map target.health (environmentManager_rec.targets (environmentManager r)) =
        map target.health (environmentManager_rec.targets (environmentManager s)))"

definition inRange :: "laser \<Rightarrow> bool" where
  "inRange l = (distanceTraveled l < maxDistance l)"

text \<open>
  What the simulation keeps of ship and entities: the ship's health and position, the
  score, and the environment manager (fighters, asteroids, collision objects and the
  positions of their meshes).
\<close>

definition simulationView :: "world \<Rightarrow> int \<times> vec3 \<times> int \<times> environmentManager_rec" where
  "simulationView s =
     (shipState_rec.health (shipState s), shipState_rec.position (shipState s),
      score (gameState s), environmentManager s)"




section \<open>Helper lemmas\<close>

lemma sqrt_less_sq: "0 \<le> r \<Longrightarrow> (sqrt x < r) = (x < r * r)"
  by (metis real_sqrt_less_iff real_sqrt_abs2 abs_of_nonneg)

lemma sqrt_ge_sq: "0 \<le> r \<Longrightarrow> (r \<le> sqrt x) = (r * r \<le> x)"
  by (metis real_sqrt_le_iff real_sqrt_abs2 abs_of_nonneg)

lemma sqrt_gt_sq: "0 \<le> r \<Longrightarrow> (r < sqrt x) = (r * r < x)"
  by (metis real_sqrt_less_iff real_sqrt_abs2 abs_of_nonneg)

lemma updateSpeed_range:
  "maxReverseSpeed \<le> v \<Longrightarrow> v \<le> maxForwardSpeed \<Longrightarrow>
   maxReverseSpeed \<le> updateSpeed k v \<and> updateSpeed k v \<le> maxForwardSpeed"
  unfolding updateSpeed_def maxReverseSpeed_def maxForwardSpeed_def speedIncrement_def Let_def
  by (auto simp: min_def max_def abs_if)

lemma shipState_gameOver [simp]: "shipState (gameOver m s) = shipState s"
  by (simp add: gameOver_def createExplosionEffect_def Let_def)

lemma currentSpeed_fireLaser [simp]:
  "currentSpeed (shipState (fireLaser t s)) = currentSpeed (shipState s)"
  by (simp add: fireLaser_def Let_def)

lemma currentSpeed_updateBarrelRoll [simp]:
  "currentSpeed (shipState (updateBarrelRoll dt s)) = currentSpeed (shipState s)"
  by (simp add: updateBarrelRoll_def set_rotation_z_def Let_def)

lemma currentSpeed_checkCollisions [simp]:
  "currentSpeed (shipState (checkCollisions s)) = currentSpeed (shipState s)"
  by (simp add: checkCollisions_def handleCollision_def split: option.splits)

lemma currentSpeed_checkEnemyLasers [simp]:
  "currentSpeed (shipState (checkEnemyLasers s)) = currentSpeed (shipState s)"
  by (simp add: checkEnemyLasers_def createExplosionEffect_def Let_def split: option.splits)

lemma currentSpeed_moveShip:
  "currentSpeed (shipState (moveShip s)) = updateSpeed (keys s) (currentSpeed (shipState s))"
  by (simp add: moveShip_def Let_def)

lemma shipState_env_createExplosionEffect [simp]:
  "shipState (env_createExplosionEffect p sz c s) = shipState s"
  by (simp add: env_createExplosionEffect_def)

lemma shipState_destroyTarget [simp]: "shipState (destroyTarget j s) = shipState s"
  by (simp add: destroyTarget_def Let_def)

lemma shipState_destroyAsteroid [simp]: "shipState (destroyAsteroid j s) = shipState s"
  by (simp add: destroyAsteroid_def Let_def split: option.splits)

lemma shipState_checkTargets [simp]: "shipState (checkTargets l i s) = shipState s"
  by (simp add: checkTargets_def Let_def split: option.splits)

lemma shipState_checkAsteroids [simp]: "shipState (checkAsteroids l i s) = shipState s"
  by (simp add: checkAsteroids_def Math_random_def Let_def split: option.splits)

lemma shipState_updateLasers_body [simp]: "shipState (updateLasers_body dt i s) = shipState s"
  by (simp add: updateLasers_body_def Let_def)

lemma shipState_updateLasers_loop [simp]: "shipState (updateLasers_loop dt n s) = shipState s"
  by (induction n arbitrary: s) simp_all

lemma shipState_updateLasers [simp]: "shipState (updateLasers dt s) = shipState s"
  by (simp add: updateLasers_def)

lemma shipState_updateExplosions [simp]: "shipState (updateExplosions dt s) = shipState s"
  by (simp add: updateExplosions_def)

lemma shipState_env_updateExplosions [simp]: "shipState (env_updateExplosions dt s) = shipState s"
  by (simp add: env_updateExplosions_def)

lemma shipState_render [simp]: "shipState (render s) = shipState s"
  by (simp add: render_def)

lemma shipState_moveAsteroid:
  "shipState (case moveAsteroid i s of Inl e \<Rightarrow> e | Inr r \<Rightarrow> r) = shipState s"
  by (simp add: moveAsteroid_def Math_random_def Let_def split: prod.splits)

lemma shipState_moveAsteroids:
  "shipState (case moveAsteroids is s of Inl e \<Rightarrow> e | Inr r \<Rightarrow> r) = shipState s"
proof (induction "is" arbitrary: s)
  case Nil
  then show ?case by simp
next
  case (Cons i "is")
  show ?case
  proof (cases "moveAsteroid i s")
    case (Inl e)
    with shipState_moveAsteroid [of i s] show ?thesis by simp
  next
    case (Inr r)
    with shipState_moveAsteroid [of i s] Cons.IH [of r] show ?thesis by simp
  qed
qed

lemma shipState_updateEnvironment:
  "shipState (case updateEnvironment dt s of Inl e \<Rightarrow> e | Inr r \<Rightarrow> r) = shipState s"
  using shipState_moveAsteroids [of "[0 ..< length (asteroids (environmentManager s))]" s]
  by (simp add: updateEnvironment_def split: sum.splits)

lemma shipState_steerTarget [simp]: "shipState (snd (steerTarget dt p tg s)) = shipState s"
  by (simp add: steerTarget_def Math_random_def Let_def split: prod.splits)

lemma shipState_env_updateEnemy [simp]: "shipState (env_updateEnemy dt i s) = shipState s"
  by (simp add: env_updateEnemy_def Let_def split_beta)

lemma shipState_fold_env_updateEnemy [simp]:
  "shipState (fold (env_updateEnemy dt) is s) = shipState s"
  by (induction "is" arbitrary: s) simp_all

lemma shipState_env_updateEnemies [simp]: "shipState (env_updateEnemies dt s) = shipState s"
  by (simp add: env_updateEnemies_def)

lemma currentSpeed_updateShipPhysics:
  "currentSpeed (shipState (updateShipPhysics dt t s)) = updateSpeed (keys s) (currentSpeed (shipState s))"
  by (simp add: updateShipPhysics_def Let_def currentSpeed_moveShip)

lemma shipState_after_environment:
  "updateEnvironment dt s = Inl e \<Longrightarrow> shipState e = shipState s"
  "updateEnvironment dt s = Inr r \<Longrightarrow> shipState r = shipState s"
  using shipState_updateEnvironment [of dt s] by simp_all

lemma currentSpeed_animate:
  "currentSpeed (shipState (step (Frame dt t) s)) =
     (if isGameOver (gameState s) then currentSpeed (shipState s)
      else updateSpeed (keys s) (currentSpeed (shipState s)))"
  by (auto simp add: animate_def Let_def currentSpeed_updateShipPhysics
      shipState_after_environment split: sum.splits)

lemma speedInRange_step: "speedInRange s \<Longrightarrow> speedInRange (step ev s)"
proof (cases ev)
  case (Frame dt t)
  assume "speedInRange s"
  then show ?thesis
    unfolding speedInRange_def Frame currentSpeed_animate
    using updateSpeed_range [of "currentSpeed (shipState s)" "keys s"] by simp
qed (simp_all add: speedInRange_def keydown_def keyup_def startBarrelRoll_def graceTimeout_def Let_def)

lemma speedInRange_run: "speedInRange s \<Longrightarrow> speedInRange (run evs s)"
  unfolding run_def by (induction evs arbitrary: s) (simp_all add: speedInRange_step)


lemma lasers_gameOver [simp]: "lasers (gameOver m s) = lasers s"
  by (simp add: gameOver_def createExplosionEffect_def Let_def)

lemma moveShip_fields [simp]:
  "invulnerable (shipState (moveShip s)) = invulnerable (shipState s)"
  "barrelRoll (shipState (moveShip s)) = barrelRoll (shipState s)"
  "shipState_rec.health (shipState (moveShip s)) = shipState_rec.health (shipState s)"
  "gameState (moveShip s) = gameState s"
  "lasers (moveShip s) = lasers s"
  "keys (moveShip s) = keys s"
  by (simp_all add: moveShip_def Let_def)

lemma fireLaser_fields [simp]:
  "invulnerable (shipState (fireLaser t s)) = invulnerable (shipState s)"
  "barrelRoll (shipState (fireLaser t s)) = barrelRoll (shipState s)"
  "shipState_rec.health (shipState (fireLaser t s)) = shipState_rec.health (shipState s)"
  "gameState (fireLaser t s) = gameState s"
  by (simp_all add: fireLaser_def Let_def)

lemma fireLaser_lasers_prefix:
  "take (length (lasers s)) (lasers (fireLaser t s)) = lasers s"
  by (simp add: fireLaser_def Let_def)

lemma updateBarrelRoll_fields [simp]:
  "shipState_rec.health (shipState (updateBarrelRoll dt s)) = shipState_rec.health (shipState s)"
  "gameState (updateBarrelRoll dt s) = gameState s"
  "lasers (updateBarrelRoll dt s) = lasers s"
  by (simp_all add: updateBarrelRoll_def set_rotation_z_def Let_def)

lemma updateBarrelRoll_invulnerable:
  "invulnerable (shipState s) \<Longrightarrow>
   \<not> (active (barrelRoll (shipState s)) \<and>
      progress (barrelRoll (shipState s)) + barrelRoll_speed \<ge> barrelRoll_duration) \<Longrightarrow>
   invulnerable (shipState (updateBarrelRoll dt s))"
  by (auto simp add: updateBarrelRoll_def set_rotation_z_def Let_def)

lemma shieldedWorld_simps:
  "invulnerable (shipState shieldedWorld)"
  "\<not> active (barrelRoll (shipState shieldedWorld))"
  "shipState_rec.health (shipState shieldedWorld) = 100"
  "lasers shieldedWorld = [exampleEnemyLaser]"
  "gameState shieldedWorld = \<lparr>isGameOver = False, score = 0\<rparr>"
  by (simp_all add: shieldedWorld_def exampleWorld_def exampleShip_def)

lemma sameButEnvironment_refl [simp]: "sameButEnvironment s s"
  by (simp add: sameButEnvironment_def)

lemma sameButEnvironment_trans:
  "sameButEnvironment s r \<Longrightarrow> sameButEnvironment r q \<Longrightarrow> sameButEnvironment s q"
  by (simp add: sameButEnvironment_def)

lemma sameButEnvironment_moveAsteroid:
  "sameButEnvironment s (case moveAsteroid i s of Inl e \<Rightarrow> e | Inr r \<Rightarrow> r)"
  by (simp add: moveAsteroid_def Math_random_def Let_def sameButEnvironment_def split: prod.splits)

lemma sameButEnvironment_moveAsteroids:
  "sameButEnvironment s (case moveAsteroids is s of Inl e \<Rightarrow> e | Inr r \<Rightarrow> r)"
proof (induction "is" arbitrary: s)
  case Nil
  then show ?case by simp
next
  case (Cons i "is")
  show ?case
  proof (cases "moveAsteroid i s")
    case (Inl e)
    with sameButEnvironment_moveAsteroid [of s i] show ?thesis by simp
  next
    case (Inr r)
    with sameButEnvironment_moveAsteroid [of s i] Cons.IH [of r] show ?thesis
      by (auto intro: sameButEnvironment_trans)
  qed
qed

lemma sameButEnvironment_env_updateExplosions:
  "sameButEnvironment s (env_updateExplosions dt s)"
  by (simp add: env_updateExplosions_def sameButEnvironment_def)

lemma sameButEnvironment_updateEnvironment:
  "sameButEnvironment s (case updateEnvironment dt s of Inl e \<Rightarrow> e | Inr r \<Rightarrow> r)"
proof (cases "moveAsteroids [0 ..< length (asteroids (environmentManager s))] s")
  case (Inl e)
  with sameButEnvironment_moveAsteroids [of s "[0 ..< length (asteroids (environmentManager s))]"]
  show ?thesis by (simp add: updateEnvironment_def)
next
  case (Inr r)
  with sameButEnvironment_moveAsteroids [of s "[0 ..< length (asteroids (environmentManager s))]"]
  have "sameButEnvironment s r" by simp
  then have "sameButEnvironment s (env_updateExplosions dt r)"
    using sameButEnvironment_env_updateExplosions sameButEnvironment_trans by blast
  with Inr show ?thesis by (simp add: updateEnvironment_def)
qed

lemma environmentManager_createExplosionEffect [simp]:
  "environmentManager (createExplosionEffect p sz c s) = environmentManager s"
  by (simp add: createExplosionEffect_def)

lemma environmentManager_gameOver [simp]:
  "environmentManager (gameOver m s) = environmentManager s"
  by (simp add: gameOver_def Let_def)

lemma environmentManager_moveShip [simp]:
  "environmentManager (moveShip s) = environmentManager s"
  by (simp add: moveShip_def Let_def)

lemma environmentManager_fireLaser [simp]:
  "environmentManager (fireLaser t s) = environmentManager s"
  by (simp add: fireLaser_def Let_def)

lemma environmentManager_updateBarrelRoll [simp]:
  "environmentManager (updateBarrelRoll dt s) = environmentManager s"
  by (simp add: updateBarrelRoll_def set_rotation_z_def Let_def)

lemma environmentManager_handleCollision [simp]:
  "environmentManager (handleCollision obj s) = environmentManager s"
  by (simp add: handleCollision_def)

lemma environmentManager_checkCollisions [simp]:
  "environmentManager (checkCollisions s) = environmentManager s"
  by (simp add: checkCollisions_def split: option.splits)

lemma environmentManager_checkEnemyLasers [simp]:
  "environmentManager (checkEnemyLasers s) = environmentManager s"
  by (simp add: checkEnemyLasers_def Let_def split: option.splits)

lemma environmentManager_updateShipPhysics [simp]:
  "environmentManager (updateShipPhysics dt t s) = environmentManager s"
  by (simp add: updateShipPhysics_def Let_def)

lemma withTargets_fields [simp]:
  "shipState (withTargets ts s) = shipState s"
  "gameState (withTargets ts s) = gameState s"
  "keys (withTargets ts s) = keys s"
  "xwing (withTargets ts s) = xwing s"
  "lasers (withTargets ts s) = lasers s"
  "gameOverScreen (withTargets ts s) = gameOverScreen s"
  "collisionObjects (environmentManager (withTargets ts s)) = collisionObjects (environmentManager s)"
  "meshPosition (environmentManager (withTargets ts s)) = meshPosition (environmentManager s)"
  "asteroids (environmentManager (withTargets ts s)) = asteroids (environmentManager s)"
  "environmentManager_rec.targets (environmentManager (withTargets ts s)) = ts"
  by (simp_all add: withTargets_def)

lemma withTargets_createExplosionEffect:
  "createExplosionEffect p sz c (withTargets ts s) = withTargets ts (createExplosionEffect p sz c s)"
  by (simp add: createExplosionEffect_def withTargets_def)

lemma withTargets_gameOver: "gameOver m (withTargets ts s) = withTargets ts (gameOver m s)"
  by (simp add: gameOver_def Let_def createExplosionEffect_def withTargets_def)

lemma withTargets_moveShip: "moveShip (withTargets ts s) = withTargets ts (moveShip s)"
  by (simp add: moveShip_def Let_def withTargets_def)

lemma withTargets_fireLaser: "fireLaser t (withTargets ts s) = withTargets ts (fireLaser t s)"
  by (simp add: fireLaser_def Let_def withTargets_def)

lemma withTargets_updateBarrelRoll:
  "updateBarrelRoll dt (withTargets ts s) = withTargets ts (updateBarrelRoll dt s)"
  by (simp add: updateBarrelRoll_def set_rotation_z_def Let_def withTargets_def)

lemma withTargets_handleCollision:
  "handleCollision obj (withTargets ts s) = withTargets ts (handleCollision obj s)"
  by (simp add: handleCollision_def gameOver_def createExplosionEffect_def Let_def withTargets_def)

lemma withTargets_checkCollisions:
  "checkCollisions (withTargets ts s) = withTargets ts (checkCollisions s)"
  by (simp add: checkCollisions_def withTargets_handleCollision split: option.splits)

lemma withTargets_checkEnemyLasers:
  "checkEnemyLasers (withTargets ts s) = withTargets ts (checkEnemyLasers s)"
  by (simp add: checkEnemyLasers_def Let_def gameOver_def createExplosionEffect_def
      withTargets_def split: option.splits)

lemma withTargets_updateShipPhysics:
  "updateShipPhysics dt t (withTargets ts s) = withTargets ts (updateShipPhysics dt t s)"
  by (simp add: updateShipPhysics_def Let_def withTargets_moveShip withTargets_fireLaser
      withTargets_updateBarrelRoll withTargets_checkCollisions withTargets_checkEnemyLasers)

lemma steerTarget_health [simp]:
  "target.health (fst (fst (steerTarget dt p tg s))) = target.health tg"
  by (simp add: steerTarget_def Math_random_def Let_def split_beta)

lemma steerTarget_world:
  "snd (steerTarget dt p tg s) = s \<or>
   snd (steerTarget dt p tg s) = s\<lparr>randomCalls := Suc (Suc (Suc (randomCalls s)))\<rparr>"
  by (simp add: steerTarget_def Math_random_def Let_def split_beta)

lemma map_update_same: "(map f xs)[i := f (xs ! i)] = map f xs"
  by (cases "i < length xs") (simp_all add: list_update_same_conv list_update_beyond)

lemma sameButFighterMotion_env_updateEnemy:
  "sameButFighterMotion s (env_updateEnemy dt i s)"
  using steerTarget_world [of dt "shipState_rec.position (shipState s)"
      "environmentManager_rec.targets (environmentManager s) ! i" s]
  by (auto simp add: env_updateEnemy_def Let_def split_beta sameButFighterMotion_def map_update
      map_update_same)

lemma sameButFighterMotion_fold:
  "sameButFighterMotion s (fold (env_updateEnemy dt) is s)"
proof (induction "is" arbitrary: s)
  case Nil
  then show ?case by (simp add: sameButFighterMotion_def)
next
  case (Cons i "is")
  from sameButFighterMotion_env_updateEnemy [of s dt i] Cons.IH [of "env_updateEnemy dt i s"]
  show ?case by (simp add: sameButFighterMotion_def)
qed

lemma sameButFighterMotion_env_updateEnemies:
  "sameButFighterMotion s (env_updateEnemies dt s)"
  by (simp add: env_updateEnemies_def sameButFighterMotion_fold)

lemma updateLasers_no_lasers: "lasers s = [] \<Longrightarrow> updateLasers dt s = s"
  by (simp add: updateLasers_def)

lemma lasers_checkCollisions [simp]: "lasers (checkCollisions s) = lasers s"
  by (simp add: checkCollisions_def handleCollision_def split: option.splits)

lemma checkEnemyLasers_no_lasers: "lasers s = [] \<Longrightarrow> checkEnemyLasers s = s"
  by (simp add: checkEnemyLasers_def)

lemma lasers_updateShipPhysics_idle:
  "lasers s = [] \<Longrightarrow> \<not> keys s ''f'' \<Longrightarrow> lasers (updateShipPhysics dt t s) = []"
  by (simp add: updateShipPhysics_def Let_def checkEnemyLasers_no_lasers)

lemma frame_without_lasers:
  assumes "\<not> isGameOver (gameState s)" and "lasers (updateShipPhysics dt t s) = []"
  shows "shipState (step (Frame dt t) s) = shipState (updateShipPhysics dt t s) \<and>
         gameState (step (Frame dt t) s) = gameState (updateShipPhysics dt t s) \<and>
         map target.health (environmentManager_rec.targets (environmentManager (step (Frame dt t) s))) =
           map target.health (environmentManager_rec.targets (environmentManager s))"
proof (cases "updateEnvironment dt (updateShipPhysics dt t s)")
  case (Inl e)
  with sameButEnvironment_updateEnvironment [of "updateShipPhysics dt t s" dt]
  have "sameButEnvironment (updateShipPhysics dt t s) e" by simp
  with Inl assms(1) show ?thesis
    by (simp add: animate_def Let_def sameButEnvironment_def)
next
  case (Inr r)
  with sameButEnvironment_updateEnvironment [of "updateShipPhysics dt t s" dt]
  have a: "sameButEnvironment (updateShipPhysics dt t s) r" by simp
  have b: "sameButFighterMotion r (env_updateEnemies dt r)"
    by (rule sameButFighterMotion_env_updateEnemies)
  have "lasers (env_updateEnemies dt r) = []"
    using a b assms(2) by (simp add: sameButEnvironment_def sameButFighterMotion_def)
  then have c: "updateLasers dt (env_updateEnemies dt r) = env_updateEnemies dt r"
    by (rule updateLasers_no_lasers)
  from Inr assms(1) a b show ?thesis
    by (simp add: animate_def Let_def c updateExplosions_def render_def sameButEnvironment_def
        sameButFighterMotion_def)
qed

lemmas example_defs = exampleWorld_def exampleShip_def exampleEnvironment_def calmWorld_def
  exampleFighterAtShip_def exampleEnemyLaser_def shieldedWorld_def

lemmas vec_defs = add_v_def subVectors_def multiplyScalar_def length_v_def distanceTo_def
  normalize_v_def lerp_v_def forwardVector_def

lemmas const_defs = maxSpeed_def drag_def speedIncrement_def maxForwardSpeed_def
  maxReverseSpeed_def barrelRoll_speed_def barrelRoll_duration_def collisionRadius_def
  shootCooldown_def laserSpeed_def laserRange_def laserDamage_def

lemma moveShip_calm:
  "moveShip calmWorld =
     calmWorld\<lparr>shipState := exampleShip
         \<lparr>shipState_rec.velocity := Vector3 0 (- 0.00196) 0,
          shipState_rec.position := Vector3 0 (- 0.00196) 0\<rparr>,
       xwing := (xwing calmWorld)\<lparr>xwing_rec.position := Vector3 0 (- 0.00196) 0\<rparr>\<rparr>"
  by (simp add: moveShip_def Let_def example_defs vec_defs const_defs updateSpeed_def)

lemma calmWorld_simps:
  "lasers calmWorld = []" "\<not> keys calmWorld ''f''" "\<not> isGameOver (gameState calmWorld)"
  "\<not> invulnerable (shipState calmWorld)"
  by (simp_all add: example_defs)

lemma updateShipPhysics_calm:
  "updateShipPhysics dt t calmWorld = moveShip calmWorld"
proof -
  have a: "updateBarrelRoll dt (moveShip calmWorld) = moveShip calmWorld"
    by (simp add: updateBarrelRoll_def calmWorld_def exampleWorld_def exampleShip_def)
  have b: "checkCollisions (moveShip calmWorld) = moveShip calmWorld"
    unfolding moveShip_calm
    by (simp add: checkCollisions_def example_defs vec_defs const_defs sqrt_less_sq)
  have c: "checkEnemyLasers (moveShip calmWorld) = moveShip calmWorld"
    by (simp add: checkEnemyLasers_no_lasers calmWorld_simps)
  show ?thesis
    by (simp add: updateShipPhysics_def Let_def calmWorld_simps a b c)
qed

lemma doubleHit_rear: "updateLasers_body 0.01 1 doubleHitWorld =
   doubleHitWorld\<lparr>lasers := [exampleFrontShot, exampleRearShot\<lparr>laser.position := Vector3 0 0 (- 25)\<rparr>]\<rparr>"
  by (simp add: updateLasers_body_def Let_def doubleHitWorld_def exampleWorld_def
      exampleEnvironment_def exampleFrontShot_def exampleRearShot_def moveLaser_def
      distanceTraveled_def vec_defs checkTargets_def checkAsteroids_def sqrt_less_sq sqrt_ge_sq numeral_2_eq_2)

lemma doubleHit_front:
  "updateLasers_body 0.01 0
     (doubleHitWorld\<lparr>lasers := [exampleFrontShot, exampleRearShot\<lparr>laser.position := Vector3 0 0 (- 25)\<rparr>]\<rparr>) = s \<Longrightarrow>
   lasers s = [] \<and>
   map target.health (environmentManager_rec.targets (environmentManager s)) = [25] \<and>
   asteroids (environmentManager s) = [] \<and>
   collisionObjects (environmentManager s) = [] \<and>
   length (environmentManager_rec.explosions (environmentManager s)) = 3 \<and>
   score (gameState s) = 25"
  by (auto simp add: updateLasers_body_def Let_def doubleHitWorld_def exampleWorld_def
      exampleEnvironment_def exampleFrontShot_def exampleRearShot_def moveLaser_def
      distanceTraveled_def vec_defs checkTargets_def checkAsteroids_def sqrt_less_sq sqrt_ge_sq
      splice_def env_createExplosionEffect_def Math_random_def destroyAsteroid_def)

lemma friendlyFireWorld_lasers:
  "lasers (friendlyFireWorld h) =
     [\<lparr>laser.position = Vector3 0 0 (- 100), velocity = Vector3 0 0 1.5,
       startPosition = Vector3 0 0 (- 100), distance = 0, maxDistance = 5, damage = 10,
       isEnemy = True\<rparr>]"
  by (simp add: friendlyFireWorld_def createEnemyLaser_def Let_def exampleWorld_def
      exampleShip_def exampleFighter_def vec_defs)

lemma friendlyFire_eval:
  "updateLasers_body 0.016 0 (friendlyFireWorld h) = s \<Longrightarrow>
   lasers s = [] \<and>
   map target.health (environmentManager_rec.targets (environmentManager s)) =
     (if h \<le> 10 then [] else [h - 10]) \<and>
   asteroids (environmentManager s) = [] \<and>
   score (gameState s) = (if h \<le> 10 then 125 else 25)"
  by (auto simp add: updateLasers_body_def Let_def friendlyFireWorld_def createEnemyLaser_def
      exampleWorld_def exampleShip_def
      exampleEnvironment_def exampleFighter_def moveLaser_def
      distanceTraveled_def vec_defs checkTargets_def checkAsteroids_def sqrt_less_sq sqrt_ge_sq
      splice_def env_createExplosionEffect_def Math_random_def destroyAsteroid_def destroyTarget_def)

lemma graceTimers_env_createExplosionEffect [simp]:
  "graceTimers (env_createExplosionEffect p sz c s) = graceTimers s"
  by (simp add: env_createExplosionEffect_def)

lemma graceTimers_destroyTarget [simp]: "graceTimers (destroyTarget j s) = graceTimers s"
  by (simp add: destroyTarget_def Let_def)

lemma graceTimers_destroyAsteroid [simp]: "graceTimers (destroyAsteroid j s) = graceTimers s"
  by (simp add: destroyAsteroid_def Let_def split: option.splits)

lemma graceTimers_checkTargets [simp]: "graceTimers (checkTargets l i s) = graceTimers s"
  by (simp add: checkTargets_def Let_def split: option.splits)

lemma graceTimers_checkAsteroids [simp]: "graceTimers (checkAsteroids l i s) = graceTimers s"
  by (simp add: checkAsteroids_def Math_random_def Let_def split: option.splits)

lemma graceTimers_updateLasers_body [simp]: "graceTimers (updateLasers_body dt i s) = graceTimers s"
  by (simp add: updateLasers_body_def Let_def)

lemma graceTimers_updateLasers_loop [simp]: "graceTimers (updateLasers_loop dt n s) = graceTimers s"
  by (induction n arbitrary: s) simp_all

lemma graceTimers_updateLasers [simp]: "graceTimers (updateLasers dt s) = graceTimers s"
  by (simp add: updateLasers_def)

lemma frame_ship_side:
  assumes "\<not> isGameOver (gameState s)"
  shows "shipState (step (Frame dt t) s) = shipState (updateShipPhysics dt t s) \<and>
         graceTimers (step (Frame dt t) s) = graceTimers (updateShipPhysics dt t s)"
proof (cases "updateEnvironment dt (updateShipPhysics dt t s)")
  case (Inl e)
  with sameButEnvironment_updateEnvironment [of "updateShipPhysics dt t s" dt]
  have "sameButEnvironment (updateShipPhysics dt t s) e" by simp
  with Inl assms show ?thesis
    by (simp add: animate_def Let_def sameButEnvironment_def)
next
  case (Inr r)
  with sameButEnvironment_updateEnvironment [of "updateShipPhysics dt t s" dt]
  have a: "sameButEnvironment (updateShipPhysics dt t s) r" by simp
  have b: "sameButFighterMotion r (env_updateEnemies dt r)"
    by (rule sameButFighterMotion_env_updateEnemies)
  from Inr assms a b show ?thesis
    by (simp add: animate_def Let_def updateExplosions_def render_def sameButEnvironment_def
        sameButFighterMotion_def)
qed

lemma moveShip_ambush:
  "moveShip ambushWorld =
     ambushWorld\<lparr>shipState := exampleShip
         \<lparr>shipState_rec.velocity := Vector3 0 (- 0.00196) 0,
          shipState_rec.position := Vector3 0 (- 0.00196) 0\<rparr>,
       xwing := (xwing ambushWorld)\<lparr>xwing_rec.position := Vector3 0 (- 0.00196) 0\<rparr>\<rparr>"
  by (simp add: moveShip_def Let_def ambushWorld_def example_defs vec_defs const_defs updateSpeed_def)

lemma updateShipPhysics_ambush:
  "shipState (updateShipPhysics dt t ambushWorld) =
     exampleShip\<lparr>shipState_rec.velocity := Vector3 0 (- 0.00196) 0,
                 shipState_rec.position := Vector3 0 (- 0.00196) 0,
                 shipState_rec.health := 90, invulnerable := True\<rparr> \<and>
   graceTimers (updateShipPhysics dt t ambushWorld) = 1 \<and>
   lasers (updateShipPhysics dt t ambushWorld) = []"
proof -
  have k: "\<not> keys ambushWorld ''f''"
    by (simp add: ambushWorld_def example_defs)
  have a: "updateBarrelRoll dt (moveShip ambushWorld) = moveShip ambushWorld"
    by (simp add: updateBarrelRoll_def ambushWorld_def example_defs)
  have b: "checkCollisions (moveShip ambushWorld) = moveShip ambushWorld"
    unfolding moveShip_ambush
    by (simp add: checkCollisions_def ambushWorld_def example_defs vec_defs const_defs sqrt_less_sq)
  have c: "updateShipPhysics dt t ambushWorld = checkEnemyLasers (moveShip ambushWorld)"
    by (simp add: updateShipPhysics_def Let_def k a b)
  show ?thesis
    unfolding c moveShip_ambush
    by (simp add: checkEnemyLasers_def Let_def ambushWorld_def example_defs vec_defs const_defs
        sqrt_less_sq splice_def createExplosionEffect_def gameOver_def)
qed

lemma distanceTo_along:
  "distanceTo (add_v a (multiplyScalar v k)) a = \<bar>k\<bar> * length_v v"
proof -
  have "(vx v * k) * (vx v * k) + (vy v * k) * (vy v * k) + (vz v * k) * (vz v * k) =
        (k * k) * (vx v * vx v + vy v * vy v + vz v * vz v)"
    by (simp add: algebra_simps)
  then show ?thesis
    by (simp add: distanceTo_def add_v_def multiplyScalar_def length_v_def Let_def real_sqrt_mult)
qed

lemma fold_moveLaser_fields [simp]:
  "laser.velocity (fold moveLaser dts l) = laser.velocity l"
  "startPosition (fold moveLaser dts l) = startPosition l"
  "maxDistance (fold moveLaser dts l) = maxDistance l"
  by (induction dts arbitrary: l) (simp_all add: moveLaser_def)

lemma fold_moveLaser_position:
  "laser.position l = add_v (startPosition l) (multiplyScalar (laser.velocity l) k) \<Longrightarrow>
   laser.position (fold moveLaser dts l) =
     add_v (startPosition l) (multiplyScalar (laser.velocity l) (k + sum_list dts))"
proof (induction dts arbitrary: l k)
  case Nil
  then show ?case by simp
next
  case (Cons d dts)
  have "laser.position (moveLaser d l) =
          add_v (startPosition (moveLaser d l)) (multiplyScalar (laser.velocity (moveLaser d l)) (k + d))"
    using Cons.prems by (simp add: moveLaser_def add_v_def multiplyScalar_def algebra_simps)
  from Cons.IH [OF this] show ?case
    by (simp add: moveLaser_def add.assoc)
qed

lemma add_v_zero: "add_v a (multiplyScalar v 0) = a"
  by (simp add: add_v_def multiplyScalar_def)

lemma distanceTraveled_fold:
  assumes "laser.position l = startPosition l"
  shows "distanceTraveled (fold moveLaser dts l) = \<bar>sum_list dts\<bar> * length_v (laser.velocity l)"
proof -
  have "laser.position l = add_v (startPosition l) (multiplyScalar (laser.velocity l) 0)"
    using assms by (simp add: add_v_zero)
  from fold_moveLaser_position [OF this, of dts] show ?thesis
    by (simp add: distanceTraveled_def distanceTo_along)
qed

lemma length_v_nonneg: "0 \<le> length_v v"
  by (simp add: length_v_def)

lemma distanceTraveled_monotone:
  assumes "laser.position l = startPosition l" and "\<forall>d\<in>set dts. 0 \<le> d" and "0 \<le> dt"
  shows "distanceTraveled (fold moveLaser dts l) \<le> distanceTraveled (moveLaser dt (fold moveLaser dts l))"
proof -
  have s: "0 \<le> sum_list dts" using assms(2) by (simp add: sum_list_nonneg)
  have "moveLaser dt (fold moveLaser dts l) = fold moveLaser (dts @ [dt]) l" by simp
  then have "distanceTraveled (moveLaser dt (fold moveLaser dts l)) =
               \<bar>sum_list dts + dt\<bar> * length_v (laser.velocity l)"
    using distanceTraveled_fold [OF assms(1), of "dts @ [dt]"] by simp
  moreover have "\<bar>sum_list dts\<bar> \<le> \<bar>sum_list dts + dt\<bar>" using s assms(3) by simp
  ultimately show ?thesis
    using distanceTraveled_fold [OF assms(1), of dts] length_v_nonneg [of "laser.velocity l"]
    by (simp add: mult_right_mono)
qed

lemma splice_update: "splice i (xs[i := x]) = splice i xs"
  by (simp add: splice_def)

lemma updateLasers_body_expired:
  assumes "i < length (lasers s)"
    and "maxDistance (lasers s ! i) \<le> distanceTraveled (moveLaser dt (lasers s ! i))"
  shows "updateLasers_body dt i s = s\<lparr>lasers := take i (lasers s) @ drop (Suc i) (lasers s)\<rparr>"
  using assms by (simp add: updateLasers_body_def Let_def splice_update moveLaser_def) (simp add: splice_def)

lemma lasers_env_createExplosionEffect [simp]:
  "lasers (env_createExplosionEffect p sz c s) = lasers s"
  by (simp add: env_createExplosionEffect_def)

lemma lasers_destroyTarget [simp]: "lasers (destroyTarget j s) = lasers s"
  by (simp add: destroyTarget_def Let_def)

lemma lasers_destroyAsteroid [simp]: "lasers (destroyAsteroid j s) = lasers s"
  by (simp add: destroyAsteroid_def Let_def split: option.splits)

lemma lasers_checkTargets:
  "lasers (checkTargets l i s) = lasers s \<or> lasers (checkTargets l i s) = splice i (lasers s)"
  by (simp add: checkTargets_def Let_def split: option.splits)

lemma lasers_checkAsteroids:
  "lasers (checkAsteroids l i s) = lasers s \<or> lasers (checkAsteroids l i s) = splice i (lasers s)"
  by (simp add: checkAsteroids_def Math_random_def Let_def split: option.splits)

lemma drop_splice: "drop i (splice i xs) = drop (Suc i) xs"
  by (cases "i \<le> length xs") (simp_all add: splice_def)

lemma list_all_drop_Suc: "list_all P (drop i xs) \<Longrightarrow> list_all P (drop (Suc i) xs)"
proof -
  assume a: "list_all P (drop i xs)"
  have "set (drop (Suc i) xs) \<subseteq> set (drop i xs)"
    by (rule set_drop_subset_set_drop) simp
  with a show ?thesis by (auto simp add: list_all_iff)
qed

lemma list_all_drop_splice: "list_all P (drop i xs) \<Longrightarrow> list_all P (drop i (splice i xs))"
  by (simp add: drop_splice list_all_drop_Suc)

lemma length_splice_ge: "i \<le> length xs \<Longrightarrow> i \<le> length (splice i xs)"
  by (simp add: splice_def)

lemma updateLasers_body_inRange:
  assumes "i < length (lasers s)" and "list_all inRange (drop (Suc i) (lasers s))"
  shows "i \<le> length (lasers (updateLasers_body dt i s)) \<and>
         list_all inRange (drop i (lasers (updateLasers_body dt i s)))"
proof (cases "maxDistance (lasers s ! i) \<le> distanceTraveled (moveLaser dt (lasers s ! i))")
  case True
  from updateLasers_body_expired [OF assms(1) True] assms show ?thesis by simp
next
  case False
  define l where "l = moveLaser dt (lasers s ! i)"
  define s1 where "s1 = s\<lparr>lasers := (lasers s)[i := l]\<rparr>"
  have lr: "inRange l" using False by (simp add: inRange_def l_def moveLaser_def)
  have d1: "drop i (lasers s1) = l # drop (Suc i) (lasers s)"
    using assms(1) by (simp add: s1_def Cons_nth_drop_Suc [symmetric])
  have a1: "i \<le> length (lasers s1) \<and> list_all inRange (drop i (lasers s1))"
    using assms lr d1 by (simp add: s1_def)
  have a2: "i \<le> length (lasers (checkTargets l i s1)) \<and>
            list_all inRange (drop i (lasers (checkTargets l i s1)))"
    using lasers_checkTargets [of l i s1] a1
    by (auto simp add: list_all_drop_splice length_splice_ge)
  have a3: "i \<le> length (lasers (checkAsteroids l i (checkTargets l i s1))) \<and>
            list_all inRange (drop i (lasers (checkAsteroids l i (checkTargets l i s1))))"
    using lasers_checkAsteroids [of l i "checkTargets l i s1"] a2
    by (auto simp add: list_all_drop_splice length_splice_ge)
  have "updateLasers_body dt i s = checkAsteroids l i (checkTargets l i s1)"
    using assms(1) False by (simp add: updateLasers_body_def Let_def l_def s1_def moveLaser_def)
  with a3 show ?thesis by simp
qed

lemma updateLasers_loop_inRange:
  "n \<le> length (lasers s) \<Longrightarrow> list_all inRange (drop n (lasers s)) \<Longrightarrow>
   list_all inRange (lasers (updateLasers_loop dt n s))"
proof (induction n arbitrary: s)
  case 0
  then show ?case by simp
next
  case (Suc n)
  from Suc.prems have "n < length (lasers s)" by simp
  from updateLasers_body_inRange [OF this Suc.prems(2), of dt] Suc.IH [of "updateLasers_body dt n s"]
  show ?case by simp
qed

lemma updateLasers_inRange: "list_all inRange (lasers (updateLasers dt s))"
  by (simp add: updateLasers_def updateLasers_loop_inRange)

lemma moveShip_transition:
  "moveShip transitionWorld =
     transitionWorld\<lparr>shipState := exampleShip
         \<lparr>shipState_rec.velocity := Vector3 0 (- 0.00196) 0,
          shipState_rec.position := Vector3 0 (- 0.00196) 0\<rparr>,
       xwing := (xwing transitionWorld)\<lparr>xwing_rec.position := Vector3 0 (- 0.00196) 0\<rparr>\<rparr>"
  by (simp add: moveShip_def Let_def transitionWorld_def exampleWorld_def exampleShip_def
      vec_defs const_defs updateSpeed_def)

lemma updateShipPhysics_transition:
  "updateShipPhysics dt t transitionWorld =
     gameOver ''Your X-Wing was destroyed by an asteroid!''
       ((moveShip transitionWorld)
          \<lparr>shipState := (shipState (moveShip transitionWorld))\<lparr>shipState_rec.health := 0\<rparr>\<rparr>)"
proof -
  have k: "\<not> keys transitionWorld ''f''"
    by (simp add: transitionWorld_def exampleWorld_def)
  have a: "updateBarrelRoll dt (moveShip transitionWorld) = moveShip transitionWorld"
    by (simp add: updateBarrelRoll_def transitionWorld_def exampleWorld_def exampleShip_def)
  have b: "checkCollisions (moveShip transitionWorld) =
     gameOver ''Your X-Wing was destroyed by an asteroid!''
       ((moveShip transitionWorld)
          \<lparr>shipState := (shipState (moveShip transitionWorld))\<lparr>shipState_rec.health := 0\<rparr>\<rparr>)"
    unfolding moveShip_transition
    by (simp add: checkCollisions_def handleCollision_def transitionWorld_def exampleWorld_def
        exampleShip_def exampleEnvironment_def vec_defs const_defs sqrt_less_sq)
  have c: "checkEnemyLasers (gameOver m ((moveShip transitionWorld)
          \<lparr>shipState := (shipState (moveShip transitionWorld))\<lparr>shipState_rec.health := 0\<rparr>\<rparr>)) =
       gameOver m ((moveShip transitionWorld)
          \<lparr>shipState := (shipState (moveShip transitionWorld))\<lparr>shipState_rec.health := 0\<rparr>\<rparr>)" for m
    by (simp add: checkEnemyLasers_def transitionWorld_def exampleWorld_def exampleShot_def)
  show ?thesis
    by (simp add: updateShipPhysics_def Let_def k a b c)
qed

lemma transition_after_physics:
  "lasers (updateShipPhysics dt t transitionWorld) = [exampleShot]"
  "environmentManager (updateShipPhysics dt t transitionWorld) = environmentManager transitionWorld"
  "shipState_rec.position (shipState (updateShipPhysics dt t transitionWorld)) = Vector3 0 (- 0.00196) 0"
  "gameState (updateShipPhysics dt t transitionWorld) = \<lparr>isGameOver = True, score = 0\<rparr>"
  "shipState_rec.health (shipState (updateShipPhysics dt t transitionWorld)) = 0"
  unfolding updateShipPhysics_transition moveShip_transition
  by (simp_all add: gameOver_def createExplosionEffect_def Let_def transitionWorld_def exampleWorld_def)

lemma fun_upd_const: "(\<lambda>m. c)(x := c) = (\<lambda>m. c)"
  by (simp add: fun_eq_iff)

lemma updateEnvironment_transition:
  assumes "environmentManager s = environmentManager transitionWorld"
  shows "updateEnvironment dt s = Inr s"
proof (cases s)
  case (fields sh gs ks xw ls es ts gos gom env rnd rc gt)
  have e: "env = environmentManager transitionWorld" using assms fields by simp
  have "moveAsteroid 0 s = Inr s"
    unfolding fields e
    by (simp add: moveAsteroid_def Let_def transitionWorld_def exampleEnvironment_def vec_defs
        sqrt_gt_sq fun_upd_const)
  then show ?thesis
    using assms
    by (simp add: updateEnvironment_def transitionWorld_def exampleEnvironment_def)
      (simp add: fields e env_updateExplosions_def updateExplosions_list_def transitionWorld_def
        exampleEnvironment_def)
qed

lemma env_updateEnemies_transition:
  assumes "environmentManager s = environmentManager transitionWorld"
    and "shipState_rec.position (shipState s) = Vector3 0 (- 0.00196) 0"
  shows "env_updateEnemies dt s = s"
proof (cases s)
  case (fields sh gs ks xw ls es ts gos gom env rnd rc gt)
  have e: "env = environmentManager transitionWorld" using assms fields by simp
  have p: "shipState_rec.position sh = Vector3 0 (- 0.00196) 0" using assms fields by simp
  show ?thesis
    unfolding fields e
    by (simp add: env_updateEnemies_def env_updateEnemy_def steerTarget_def Let_def p
        transitionWorld_def exampleEnvironment_def vec_defs sqrt_less_sq)
qed

lemma updateLasers_transition:
  assumes "environmentManager s = environmentManager transitionWorld"
    and "lasers s = [exampleShot]"
  shows "lasers (updateLasers 0.01 s) = [] \<and>
         gameState (updateLasers 0.01 s) = gameState s \<and>
         map target.health (environmentManager_rec.targets (environmentManager (updateLasers 0.01 s))) = [25]"
proof -
  have "updateLasers 0.01 s = updateLasers_body 0.01 0 s"
    by (simp add: updateLasers_def assms(2))
  then show ?thesis
    using assms
    by (simp add: updateLasers_body_def Let_def transitionWorld_def
      exampleEnvironment_def exampleShot_def moveLaser_def
      distanceTraveled_def vec_defs checkTargets_def checkAsteroids_def sqrt_less_sq sqrt_ge_sq
      splice_def env_createExplosionEffect_def)
qed

lemma frame_transition:
  "step (Frame 0.01 t) transitionWorld =
     render (updateExplosions 0.01 (updateLasers 0.01 (updateShipPhysics 0.01 t transitionWorld)))"
proof -
  have g: "\<not> isGameOver (gameState transitionWorld)"
    by (simp add: transitionWorld_def exampleWorld_def)
  have e: "updateEnvironment dt (updateShipPhysics dt t transitionWorld) =
             Inr (updateShipPhysics dt t transitionWorld)" for dt
    by (rule updateEnvironment_transition) (rule transition_after_physics)
  have f: "env_updateEnemies dt (updateShipPhysics dt t transitionWorld) =
             updateShipPhysics dt t transitionWorld" for dt
    by (rule env_updateEnemies_transition) (rule transition_after_physics)+
  show ?thesis
    by (simp add: animate_def Let_def g e f)
qed

lemma gameOver_step:
  "isGameOver (gameState s) \<Longrightarrow>
   isGameOver (gameState (step ev s)) \<and> simulationView (step ev s) = simulationView s"
  by (cases ev)
    (simp_all add: simulationView_def animate_def keydown_def keyup_def fireLaser_def
      startBarrelRoll_def graceTimeout_def Let_def)

lemma gameOver_run:
  "isGameOver (gameState s) \<Longrightarrow>
   isGameOver (gameState (run evs s)) \<and> simulationView (run evs s) = simulationView s"
  unfolding run_def
proof (induction evs arbitrary: s)
  case Nil
  then show ?case by simp
next
  case (Cons ev evs)
  from gameOver_step [OF Cons.prems, of ev] Cons.IH [of "step ev s"] show ?case by simp
qed

lemma updateLasers_body_length:
  assumes "i < length (lasers s)"
  shows "i \<le> length (lasers (updateLasers_body dt i s))"
proof (cases "maxDistance (lasers s ! i) \<le> distanceTraveled (moveLaser dt (lasers s ! i))")
  case True
  from updateLasers_body_expired [OF assms True] assms show ?thesis by simp
next
  case False
  define l where "l = moveLaser dt (lasers s ! i)"
  define s1 where "s1 = s\<lparr>lasers := (lasers s)[i := l]\<rparr>"
  have a1: "i \<le> length (lasers s1)" using assms by (simp add: s1_def)
  have a2: "i \<le> length (lasers (checkTargets l i s1))"
    using lasers_checkTargets [of l i s1] a1 by (auto simp add: length_splice_ge)
  have a3: "i \<le> length (lasers (checkAsteroids l i (checkTargets l i s1)))"
    using lasers_checkAsteroids [of l i "checkTargets l i s1"] a2
    by (auto simp add: length_splice_ge)
  have "updateLasers_body dt i s = checkAsteroids l i (checkTargets l i s1)"
    using assms False by (simp add: updateLasers_body_def Let_def l_def s1_def moveLaser_def)
  with a3 show ?thesis by simp
qed




lemma graceTimers_gameOver [simp]: "graceTimers (gameOver m s) = graceTimers s"
  by (simp add: gameOver_def createExplosionEffect_def Let_def)



















section \<open>Range expiry and the enemy-bolt paths\<close>

text \<open>
  What holds of every projectile update: a fresh bolt is at its start position, its
  distance from the start never decreases over ticks with non-negative elapsed times, an
  iteration whose bolt has reached its range removes that bolt and does nothing else, and
  every bolt left after an update is short of its range.
\<close>

lemma projectile_range_expiry:
  "(\<not> t - lastShotTime (shipState s) < shootCooldown \<longrightarrow>
      laser.position (last (lasers (fireLaser t s))) = startPosition (last (lasers (fireLaser t s)))) \<and>
   laser.position (last (lasers (createEnemyLaser tg s))) =
     startPosition (last (lasers (createEnemyLaser tg s))) \<and>
   (laser.position l = startPosition l \<and> (\<forall>d\<in>set dts. 0 \<le> d) \<and> 0 \<le> dt \<longrightarrow>
      distanceTraveled (fold moveLaser dts l)
        \<le> distanceTraveled (moveLaser dt (fold moveLaser dts l))) \<and>
   (i < length (lasers s) \<and>
    maxDistance (lasers s ! i) \<le> distanceTraveled (moveLaser dt (lasers s ! i)) \<longrightarrow>
      updateLasers_body dt i s = s\<lparr>lasers := take i (lasers s) @ drop (Suc i) (lasers s)\<rparr>) \<and>
   list_all inRange (lasers (updateLasers dt s))"
proof (intro conjI impI)
  show "laser.position (last (lasers (fireLaser t s))) = startPosition (last (lasers (fireLaser t s)))"
    if "\<not> t - lastShotTime (shipState s) < shootCooldown"
    using that by (simp add: fireLaser_def Let_def)
  show "laser.position (last (lasers (createEnemyLaser tg s))) =
     startPosition (last (lasers (createEnemyLaser tg s)))"
    by (simp add: createEnemyLaser_def Let_def)
  show "distanceTraveled (fold moveLaser dts l) \<le> distanceTraveled (moveLaser dt (fold moveLaser dts l))"
    if "laser.position l = startPosition l \<and> (\<forall>d\<in>set dts. 0 \<le> d) \<and> 0 \<le> dt"
    using that distanceTraveled_monotone [of l dts dt] by blast
  show "updateLasers_body dt i s = s\<lparr>lasers := take i (lasers s) @ drop (Suc i) (lasers s)\<rparr>"
    if "i < length (lasers s) \<and>
        maxDistance (lasers s ! i) \<le> distanceTraveled (moveLaser dt (lasers s ! i))"
    using that updateLasers_body_expired [of i s dt] by blast
  show "list_all inRange (lasers (updateLasers dt s))"
    by (rule updateLasers_inRange)
qed

lemma projectile_range_expiry_example:
  "laser.position exampleExpiringShot = startPosition exampleExpiringShot \<and>
   distanceTraveled exampleExpiringShot \<le> distanceTraveled (moveLaser 0.4 exampleExpiringShot) \<and>
   distanceTraveled (moveLaser 0.4 exampleExpiringShot) = 200 \<and>
   maxDistance exampleExpiringShot = 200 \<and>
   map target.position (environmentManager_rec.targets (environmentManager expiryWorld)) =
     [laser.position (moveLaser 0.4 exampleExpiringShot)] \<and>
   updateLasers 0.4 expiryWorld = expiryWorld\<lparr>lasers := []\<rparr>"
proof -
  have l: "lasers expiryWorld = [exampleExpiringShot]" by (simp add: expiryWorld_def)
  have p: "laser.position exampleExpiringShot = startPosition exampleExpiringShot"
    by (simp add: exampleExpiringShot_def)
  have m: "laser.position (moveLaser 0.4 exampleExpiringShot) = Vector3 0 0 (- 203)"
    by (simp add: exampleExpiringShot_def moveLaser_def vec_defs)
  have d: "distanceTraveled (moveLaser 0.4 exampleExpiringShot) = 200"
    by (simp add: distanceTraveled_def m) (simp add: exampleExpiringShot_def moveLaser_def vec_defs)
  have md: "maxDistance exampleExpiringShot = 200" by (simp add: exampleExpiringShot_def)
  have h1: "laser.position exampleExpiringShot = startPosition exampleExpiringShot \<and>
            (\<forall>d\<in>set []. (0::real) \<le> d) \<and> (0::real) \<le> 0.4"
    using p by simp
  have h2: "0 < length (lasers expiryWorld) \<and>
            maxDistance (lasers expiryWorld ! 0)
              \<le> distanceTraveled (moveLaser 0.4 (lasers expiryWorld ! 0))"
    using d md by (simp add: l)
  have u: "updateLasers dt expiryWorld = updateLasers_body dt 0 expiryWorld" for dt
    by (simp add: updateLasers_def l)
  have t: "map target.position (environmentManager_rec.targets (environmentManager expiryWorld)) =
             [Vector3 0 0 (- 203)]"
    by (simp add: expiryWorld_def)
  from projectile_range_expiry [of 0 expiryWorld exampleFighterAtShip exampleExpiringShot "[]" "0.4" 0]
    h1 h2
  have "distanceTraveled exampleExpiringShot \<le> distanceTraveled (moveLaser 0.4 exampleExpiringShot)"
    and "updateLasers_body 0.4 0 expiryWorld = expiryWorld\<lparr>lasers := []\<rparr>"
    by (simp_all add: l)
  then show ?thesis using p d m t md by (simp add: u)
qed

text \<open>
  The two paths below need an enemy bolt in \<^verbatim>\<open>lasers\<close>, which no session of \<^verbatim>\<open>main.js\<close>
  reaches (lemma \<open>noEnemyFire_run\<close>); they are evaluated on states built by hand. The
  projectile update tests every bolt, whoever owns it, against fighters and asteroids: a
  bolt from \<^verbatim>\<open>createEnemyLaser\<close> takes 10 health from its own shooter and triggers the
  asteroid roll.
\<close>

lemma enemy_bolt_hits_fighter_and_asteroid:
  "map isEnemy (lasers (friendlyFireWorld 50)) = [True] \<and>
   map target.health (environmentManager_rec.targets (environmentManager (friendlyFireWorld 50))) = [50] \<and>
   map target.health
     (environmentManager_rec.targets (environmentManager (updateLasers 0.016 (friendlyFireWorld 50)))) = [40] \<and>
   asteroids (environmentManager (updateLasers 0.016 (friendlyFireWorld 50))) = [] \<and>
   score (gameState (updateLasers 0.016 (friendlyFireWorld 50))) = 25 \<and>
   environmentManager_rec.targets (environmentManager (updateLasers 0.016 (friendlyFireWorld 10))) = [] \<and>
   score (gameState (updateLasers 0.016 (friendlyFireWorld 10))) = 125"
proof -
  have u: "updateLasers dt (friendlyFireWorld h) = updateLasers_body dt 0 (friendlyFireWorld h)" for dt h
    by (simp add: updateLasers_def friendlyFireWorld_lasers)
  have t: "map target.health (environmentManager_rec.targets (environmentManager (friendlyFireWorld 50))) = [50]"
    by (simp add: friendlyFireWorld_def createEnemyLaser_def Let_def exampleFighter_def)
  from friendlyFire_eval [OF refl, of 50] friendlyFire_eval [OF refl, of 10] t show ?thesis
    by (simp add: u friendlyFireWorld_lasers)
qed

text \<open>
  After an enemy bolt's hit, a barrel roll started before the grace timer expires loses
  its invulnerability when the timer fires.
\<close>

lemma grace_timeout_ends_roll_invulnerability:
  "shipState_rec.health (shipState (run [Frame 0.016 1] ambushWorld)) = 90 \<and>
   invulnerable (shipState (run [Frame 0.016 1] ambushWorld)) \<and>
   graceTimers (run [Frame 0.016 1] ambushWorld) = 1 \<and>
   active (barrelRoll (shipState (run [Frame 0.016 1, Keydown ''q'' 1.2] ambushWorld))) \<and>
   invulnerable (shipState (run [Frame 0.016 1, Keydown ''q'' 1.2] ambushWorld)) \<and>
   active (barrelRoll (shipState (run [Frame 0.016 1, Keydown ''q'' 1.2, Timeout] ambushWorld))) \<and>
   \<not> invulnerable (shipState (run [Frame 0.016 1, Keydown ''q'' 1.2, Timeout] ambushWorld))"
proof -
  have g: "\<not> isGameOver (gameState ambushWorld)"
    by (simp add: ambushWorld_def example_defs)
  define s1 where "s1 = step (Frame 0.016 1) ambushWorld"
  have f: "shipState s1 =
     exampleShip\<lparr>shipState_rec.velocity := Vector3 0 (- 0.00196) 0,
                 shipState_rec.position := Vector3 0 (- 0.00196) 0,
                 shipState_rec.health := 90, invulnerable := True\<rparr>"
    and t: "graceTimers s1 = 1"
    unfolding s1_def using frame_ship_side [OF g, of "0.016" 1] updateShipPhysics_ambush [of "0.016" 1]
    by simp_all
  have r1: "run [Frame 0.016 1] ambushWorld = s1"
    and r2: "run [Frame 0.016 1, Keydown ''q'' 1.2] ambushWorld = keydown ''q'' 1.2 s1"
    and r3: "run [Frame 0.016 1, Keydown ''q'' 1.2, Timeout] ambushWorld = graceTimeout (keydown ''q'' 1.2 s1)"
    by (simp_all add: run_def s1_def)
  show ?thesis
    unfolding r1 r2 r3
    by (simp add: f t keydown_def keyNames_def startBarrelRoll_def graceTimeout_def Let_def
        exampleShip_def)
qed

section \<open>The claims\<close>

text \<open>
  C1, amended: a frame that starts with \<open>isGameOver\<close> true returns at once, before the
  physics integrator, the collision resolver, the enemy AI or the projectile system is
  called; and from such a state on, whatever frames, key, touch and timer events follow,
  the game stays over and the ship's health and position, the score and every fighter,
  asteroid and collision object stay as they are.
\<close>

theorem game_over_freezes_later_frames:
  "isGameOver (gameState s) \<Longrightarrow>
   animate dt t s = Inr s \<and> isGameOver (gameState (run evs s)) \<and>
   simulationView (run evs s) = simulationView s"
  using gameOver_run [of s evs] by (simp add: animate_def)

theorem game_over_freezes_later_frames_witness:
  "isGameOver (gameState (step (Frame 0.01 1) transitionWorld)) \<and>
   animate 0.016 2 (step (Frame 0.01 1) transitionWorld) = Inr (step (Frame 0.01 1) transitionWorld) \<and>
   simulationView
     (run [Frame 0.016 2, Keydown ''f'' 2.5, Frame 0.016 2.516, Timeout]
        (step (Frame 0.01 1) transitionWorld)) =
   simulationView (step (Frame 0.01 1) transitionWorld)"
proof -
  have "gameState (step (Frame 0.01 1) transitionWorld) =
        gameState (updateLasers 0.01 (updateShipPhysics 0.01 1 transitionWorld))"
    unfolding frame_transition by (simp add: render_def updateExplosions_def)
  then have o: "isGameOver (gameState (step (Frame 0.01 1) transitionWorld))"
    using updateLasers_transition [OF transition_after_physics(2) transition_after_physics(1), of "0.01" 1]
    by (simp add: transition_after_physics)
  from game_over_freezes_later_frames [OF o] o show ?thesis by simp
qed

text \<open>
  C1 as stated fails: the functions themselves do not look at \<open>isGameOver\<close>. In the frame in
  which the ship hits an asteroid the game is over after the physics update, and the
  projectile update that follows in the same frame still moves the bolt into the fighter
  and takes 25 of its health.
\<close>

theorem simulation_continues_in_transition_frame:
  "\<not> isGameOver (gameState transitionWorld) \<and>
   isGameOver (gameState (updateShipPhysics 0.01 1 transitionWorld)) \<and>
   map target.health
     (environmentManager_rec.targets (environmentManager (updateShipPhysics 0.01 1 transitionWorld))) = [50] \<and>
   map target.health
     (environmentManager_rec.targets
        (environmentManager (updateLasers 0.01 (updateShipPhysics 0.01 1 transitionWorld)))) = [25] \<and>
   map target.health
     (environmentManager_rec.targets (environmentManager (step (Frame 0.01 1) transitionWorld))) = [25]"
proof -
  have g: "\<not> isGameOver (gameState transitionWorld)"
    by (simp add: transitionWorld_def exampleWorld_def)
  have o: "isGameOver (gameState (updateShipPhysics 0.01 1 transitionWorld))"
    by (simp add: transition_after_physics)
  have h: "map target.health
     (environmentManager_rec.targets (environmentManager (updateShipPhysics 0.01 1 transitionWorld))) = [50]"
    by (simp add: transition_after_physics) (simp add: transitionWorld_def)
  have u: "map target.health
     (environmentManager_rec.targets
        (environmentManager (updateLasers 0.01 (updateShipPhysics 0.01 1 transitionWorld)))) = [25]"
    using updateLasers_transition [OF transition_after_physics(2) transition_after_physics(1), of "0.01" 1]
    by simp
  have "environmentManager (step (Frame 0.01 1) transitionWorld) =
        environmentManager (updateLasers 0.01 (updateShipPhysics 0.01 1 transitionWorld))"
    unfolding frame_transition by (simp add: render_def updateExplosions_def)
  with g o h u show ?thesis by simp
qed

text \<open>
  C2, evaluated where the code departs from it: with two player bolts in flight, one
  update moves the front bolt inside both a fighter and an asteroid. The fighter loop
  damages the fighter and removes the bolt, and the asteroid loop then runs for the same
  bolt: it destroys the asteroid and removes the element now at that index, the rear bolt,
  which touched nothing. Two entities are hit and two projectiles are removed.
\<close>

theorem updateLasers_double_hit:
  "lasers doubleHitWorld = [exampleFrontShot, exampleRearShot] \<and>
   lasers (updateLasers 0.01 doubleHitWorld) = [] \<and>
   map target.health
     (environmentManager_rec.targets (environmentManager (updateLasers 0.01 doubleHitWorld))) = [25] \<and>
   asteroids (environmentManager (updateLasers 0.01 doubleHitWorld)) = [] \<and>
   length (environmentManager_rec.explosions (environmentManager (updateLasers 0.01 doubleHitWorld))) = 3 \<and>
   score (gameState (updateLasers 0.01 doubleHitWorld)) = 25"
proof -
  have l: "lasers doubleHitWorld = [exampleFrontShot, exampleRearShot]"
    by (simp add: doubleHitWorld_def)
  have "updateLasers 0.01 doubleHitWorld =
          updateLasers_body 0.01 0 (updateLasers_body 0.01 1 doubleHitWorld)"
    by (simp add: updateLasers_def l numeral_2_eq_2)
  with doubleHit_front [OF refl] doubleHit_rear l show ?thesis by simp
qed



text \<open>
  C4: while \<open>shipState.invulnerable\<close> is true the hazard collision check and the
  enemy-projectile check are no-ops; and in a physics update that starts with the flag set
  and does not complete a barrel roll, the ship's health and the game state are unchanged
  and no projectile is removed from the list.
\<close>

theorem invulnerable_blocks_ship_damage:
  assumes "invulnerable (shipState s)"
  shows "checkCollisions s = s \<and> checkEnemyLasers s = s \<and>
         (\<not> (active (barrelRoll (shipState s)) \<and>
              progress (barrelRoll (shipState s)) + barrelRoll_speed \<ge> barrelRoll_duration) \<longrightarrow>
            shipState_rec.health (shipState (updateShipPhysics dt t s)) = shipState_rec.health (shipState s) \<and>
            gameState (updateShipPhysics dt t s) = gameState s \<and>
            take (length (lasers s)) (lasers (updateShipPhysics dt t s)) = lasers s)"
proof (intro conjI impI)
  show "checkCollisions s = s" using assms by (simp add: checkCollisions_def)
  show "checkEnemyLasers s = s" using assms by (simp add: checkEnemyLasers_def)
next
  assume nr: "\<not> (active (barrelRoll (shipState s)) \<and>
              progress (barrelRoll (shipState s)) + barrelRoll_speed \<ge> barrelRoll_duration)"
  define s2 where "s2 = (if keys (moveShip s) ''f'' then fireLaser t (moveShip s) else moveShip s)"
  have i2: "invulnerable (shipState s2)" and b2: "barrelRoll (shipState s2) = barrelRoll (shipState s)"
    and h2: "shipState_rec.health (shipState s2) = shipState_rec.health (shipState s)"
    and g2: "gameState s2 = gameState s"
    and l2: "take (length (lasers s)) (lasers s2) = lasers s"
    using assms fireLaser_lasers_prefix [of "moveShip s" t] by (simp_all add: s2_def)
  have i3: "invulnerable (shipState (updateBarrelRoll dt s2))"
    using updateBarrelRoll_invulnerable [of s2 dt] i2 nr b2 by simp
  have eq: "updateShipPhysics dt t s = updateBarrelRoll dt s2"
    using i3 by (simp add: updateShipPhysics_def Let_def s2_def checkCollisions_def checkEnemyLasers_def)
  show "shipState_rec.health (shipState (updateShipPhysics dt t s)) = shipState_rec.health (shipState s)"
    by (simp add: eq h2)
  show "gameState (updateShipPhysics dt t s) = gameState s"
    by (simp add: eq g2)
  show "take (length (lasers s)) (lasers (updateShipPhysics dt t s)) = lasers s"
    by (simp add: eq l2)
qed

theorem invulnerable_blocks_ship_damage_witness:
  "invulnerable (shipState shieldedWorld) \<and>
   checkCollisions shieldedWorld = shieldedWorld \<and>
   checkEnemyLasers shieldedWorld = shieldedWorld \<and>
   shipState_rec.health (shipState (updateShipPhysics 0.016 1 shieldedWorld)) = 100 \<and>
   \<not> isGameOver (gameState (updateShipPhysics 0.016 1 shieldedWorld)) \<and>
   take 1 (lasers (updateShipPhysics 0.016 1 shieldedWorld)) = [exampleEnemyLaser]"
  using invulnerable_blocks_ship_damage [OF shieldedWorld_simps(1), of "0.016" 1]
  by (simp add: shieldedWorld_simps)



text \<open>
  C6: a fire request made while the clock reading minus \<open>lastShotTime\<close> is below
  \<open>shootCooldown\<close> changes nothing (no projectile appended, \<open>lastShotTime\<close> unchanged);
  otherwise it appends exactly one player projectile at the end of the list and sets
  \<open>lastShotTime\<close> to the clock reading.
\<close>

theorem fireLaser_cooldown:
  "(currentTime - lastShotTime (shipState s) < shootCooldown \<longrightarrow> fireLaser currentTime s = s) \<and>
   (\<not> currentTime - lastShotTime (shipState s) < shootCooldown \<longrightarrow>
      length (lasers (fireLaser currentTime s)) = Suc (length (lasers s)) \<and>
      butlast (lasers (fireLaser currentTime s)) = lasers s \<and>
      \<not> isEnemy (last (lasers (fireLaser currentTime s))) \<and>
      lastShotTime (shipState (fireLaser currentTime s)) = currentTime)"
  by (simp add: fireLaser_def Let_def)

theorem fireLaser_cooldown_witness:
  "shootCooldown = 0.25 \<and> lastShotTime (shipState exampleWorld) = 0 \<and>
   fireLaser 0.1 exampleWorld = exampleWorld \<and>
   lasers (fireLaser 0.1 exampleWorld) = [] \<and>
   length (lasers (fireLaser 0.25 exampleWorld)) = 1 \<and>
   lastShotTime (shipState (fireLaser 0.25 exampleWorld)) = 0.25"
  using fireLaser_cooldown [of "0.1" exampleWorld] fireLaser_cooldown [of "0.25" exampleWorld]
  by (simp add: exampleWorld_def exampleShip_def shootCooldown_def)

text \<open>
  C7: starting from \<open>currentSpeed = 0\<close>, after every sequence of events (key presses and
  releases in any combination, touch buttons, frames, timer expiries) the ship's
  \<open>currentSpeed\<close> lies in the closed interval from \<open>maxReverseSpeed = -0.3\<close> to
  \<open>maxForwardSpeed = 1.5\<close>.
\<close>

theorem currentSpeed_stays_in_range:
  "currentSpeed (shipState s) = 0 \<Longrightarrow>
   - 0.3 \<le> currentSpeed (shipState (run evs s)) \<and> currentSpeed (shipState (run evs s)) \<le> 1.5"
  using speedInRange_run [of s evs]
  by (simp add: speedInRange_def maxReverseSpeed_def maxForwardSpeed_def)

theorem currentSpeed_stays_in_range_witness:
  "currentSpeed (shipState exampleWorld) = 0 \<and>
   - 0.3 \<le> currentSpeed (shipState (run [Keydown ''w'' 0, Frame 0.016 0.016, Keyup ''w'', Frame 0.016 0.032] exampleWorld)) \<and>
   currentSpeed (shipState (run [Keydown ''w'' 0, Frame 0.016 0.016, Keyup ''w'', Frame 0.016 0.032] exampleWorld)) \<le> 1.5"
  using currentSpeed_stays_in_range [of exampleWorld "[Keydown ''w'' 0, Frame 0.016 0.016, Keyup ''w'', Frame 0.016 0.032]"]
  by (simp add: exampleWorld_def exampleShip_def)

text \<open>
  C8, evaluated where the code departs from it: of two player bolts in flight the rear one
  has travelled 22 of its 200 units after the move and is inside neither the fighter nor
  the asteroid; its own iteration keeps it. The iteration of the front bolt, which hits
  the fighter and then the asteroid, removes it with its second \<^verbatim>\<open>splice\<close>: a bolt
  leaves the list short of its range without having hit anything.
\<close>

theorem bolt_removed_short_of_range_without_hit:
  "lasers doubleHitWorld ! 1 = exampleRearShot \<and>
   distanceTraveled (moveLaser 0.01 exampleRearShot) = 22 \<and>
   maxDistance (moveLaser 0.01 exampleRearShot) = 200 \<and>
   targetHit (laser.position (moveLaser 0.01 exampleRearShot))
     (environmentManager_rec.targets (environmentManager doubleHitWorld)) 1 = None \<and>
   asteroidHit (laser.position (moveLaser 0.01 exampleRearShot))
     (meshPosition (environmentManager doubleHitWorld))
     (asteroids (environmentManager doubleHitWorld)) 0 = None \<and>
   lasers (updateLasers_body 0.01 1 doubleHitWorld) =
     [exampleFrontShot, moveLaser 0.01 exampleRearShot] \<and>
   lasers (updateLasers 0.01 doubleHitWorld) = []"
proof -
  have l: "lasers doubleHitWorld = [exampleFrontShot, exampleRearShot]"
    by (simp add: doubleHitWorld_def)
  have m: "moveLaser 0.01 exampleRearShot = exampleRearShot\<lparr>laser.position := Vector3 0 0 (- 25)\<rparr>"
    by (simp add: moveLaser_def exampleRearShot_def exampleFrontShot_def vec_defs)
  have d: "distanceTraveled (moveLaser 0.01 exampleRearShot) = 22"
    unfolding m by (simp add: distanceTraveled_def exampleRearShot_def exampleFrontShot_def vec_defs)
  have x: "maxDistance (moveLaser 0.01 exampleRearShot) = 200"
    unfolding m by (simp add: exampleRearShot_def exampleFrontShot_def)
  have t: "targetHit (laser.position (moveLaser 0.01 exampleRearShot))
     (environmentManager_rec.targets (environmentManager doubleHitWorld)) 1 = None"
    unfolding m by (simp add: doubleHitWorld_def vec_defs sqrt_less_sq)
  have a: "asteroidHit (laser.position (moveLaser 0.01 exampleRearShot))
     (meshPosition (environmentManager doubleHitWorld))
     (asteroids (environmentManager doubleHitWorld)) 0 = None"
    unfolding m by (simp add: doubleHitWorld_def exampleEnvironment_def vec_defs sqrt_less_sq)
  have u: "updateLasers 0.01 doubleHitWorld =
          updateLasers_body 0.01 0 (updateLasers_body 0.01 1 doubleHitWorld)"
    by (simp add: updateLasers_def l numeral_2_eq_2)
  have r: "lasers (updateLasers_body 0.01 1 doubleHitWorld) =
     [exampleFrontShot, moveLaser 0.01 exampleRearShot]"
    using doubleHit_rear m by simp
  have e: "lasers (updateLasers 0.01 doubleHitWorld) = []"
    using doubleHit_front [OF refl] doubleHit_rear u by simp
  from l d x t a r e show ?thesis by simp
qed



text \<open>
  C10: creating a fighter adds nothing to the collision objects, and the collision
  resolver neither reads nor writes the fighters. So in a frame with no projectile in
  flight and the fire key up, the ship's state and the game state (health, game over,
  score) after the frame are the same whatever fighters there are and wherever they are,
  and every fighter keeps its health.
\<close>

theorem fighters_are_not_collidable:
  "collisionObjects (environmentManager (createTieFighter px py pz s)) =
     collisionObjects (environmentManager s) \<and>
   checkCollisions (withTargets ts s) = withTargets ts (checkCollisions s) \<and>
   (lasers s = [] \<and> \<not> keys s ''f'' \<longrightarrow>
      shipState (step (Frame dt t) (withTargets ts s)) = shipState (step (Frame dt t) s) \<and>
      gameState (step (Frame dt t) (withTargets ts s)) = gameState (step (Frame dt t) s) \<and>
      map target.health
        (environmentManager_rec.targets (environmentManager (step (Frame dt t) (withTargets ts s)))) =
        map target.health ts)"
proof (intro conjI impI)
  show "collisionObjects (environmentManager (createTieFighter px py pz s)) =
     collisionObjects (environmentManager s)"
    by (simp add: createTieFighter_def Math_random_def Let_def)
  show "checkCollisions (withTargets ts s) = withTargets ts (checkCollisions s)"
    by (rule withTargets_checkCollisions)
next
  assume idle: "lasers s = [] \<and> \<not> keys s ''f''"
  have r: "shipState (step (Frame dt t) (withTargets ts s)) = shipState (step (Frame dt t) s) \<and>
      gameState (step (Frame dt t) (withTargets ts s)) = gameState (step (Frame dt t) s) \<and>
      map target.health
        (environmentManager_rec.targets (environmentManager (step (Frame dt t) (withTargets ts s)))) =
        map target.health ts"
  proof (cases "isGameOver (gameState s)")
    case True
    then show ?thesis by (simp add: animate_def)
  next
    case False
    have l1: "lasers (updateShipPhysics dt t s) = []"
      using idle by (simp add: lasers_updateShipPhysics_idle)
    have l2: "lasers (updateShipPhysics dt t (withTargets ts s)) = []"
      using idle by (simp add: lasers_updateShipPhysics_idle)
    have g2: "\<not> isGameOver (gameState (withTargets ts s))" using False by simp
    from frame_without_lasers [OF False l1] frame_without_lasers [OF g2 l2]
    show ?thesis by (simp add: withTargets_updateShipPhysics)
  qed
  from r show "shipState (step (Frame dt t) (withTargets ts s)) = shipState (step (Frame dt t) s)"
    by simp
  from r show "gameState (step (Frame dt t) (withTargets ts s)) = gameState (step (Frame dt t) s)"
    by simp
  from r show "map target.health
        (environmentManager_rec.targets (environmentManager (step (Frame dt t) (withTargets ts s)))) =
        map target.health ts" by simp
qed

theorem fighters_are_not_collidable_witness:
  "lasers calmWorld = [] \<and> \<not> keys calmWorld ''f'' \<and>
   distanceTo (shipState_rec.position (shipState calmWorld)) (target.position exampleFighterAtShip) = 0 \<and>
   shipState_rec.health (shipState (step (Frame 0.016 1) (withTargets [exampleFighterAtShip] calmWorld))) = 100 \<and>
   gameState (step (Frame 0.016 1) (withTargets [exampleFighterAtShip] calmWorld)) =
     \<lparr>isGameOver = False, score = 0\<rparr> \<and>
   map target.health
     (environmentManager_rec.targets
        (environmentManager (step (Frame 0.016 1) (withTargets [exampleFighterAtShip] calmWorld)))) = [50]"
proof -
  have l: "lasers (updateShipPhysics dt t calmWorld) = []" for dt t
    by (simp add: lasers_updateShipPhysics_idle calmWorld_simps)
  have f: "shipState_rec.health (shipState (step (Frame 0.016 1) calmWorld)) = 100 \<and>
           gameState (step (Frame 0.016 1) calmWorld) = \<lparr>isGameOver = False, score = 0\<rparr>"
    using frame_without_lasers [OF calmWorld_simps(3) l, of "0.016" 1]
    by (simp add: updateShipPhysics_calm moveShip_calm exampleShip_def)
      (simp add: calmWorld_def exampleWorld_def)
  have d: "distanceTo (shipState_rec.position (shipState calmWorld)) (target.position exampleFighterAtShip) = 0"
    by (simp add: example_defs vec_defs)
  from fighters_are_not_collidable [of 0 0 0 calmWorld "[exampleFighterAtShip]" "0.016" 1] f d
  show ?thesis
    by (simp add: calmWorld_simps) (simp add: exampleFighterAtShip_def)
qed

end
